theory Spec2Isabelle
  imports Main "HOL-Library.AList"
begin

section \<open>Values shared by the cache and the worker\<close>

text \<open>
  A location record is a Python \<open>Dict[str, str]\<close>: an association list in insertion
  order. \<open>d.get(k)\<close> is \<open>map_of d k\<close>; the dictionary is truthy iff it is not empty.
\<close>

type_synonym location = "(string \<times> string) list"

text \<open>
  The value stored under \<open>'timestamp'\<close> comes from a JSON file, so it may be any JSON
  scalar. \<open>truthy\<close> is Python's truth value of it. (A JSON array or object behaves
  in the code like \<open>JNull\<close> when it is empty and like \<open>JBool True\<close> otherwise.)
\<close>

datatype jval = JNull | JBool bool | JNum int | JStr string

fun truthy :: "jval \<Rightarrow> bool" where
  "truthy JNull = False"
| "truthy (JBool b) = b"
| "truthy (JNum n) = (n \<noteq> 0)"
| "truthy (JStr s) = (s \<noteq> [])"

text \<open>
  The functions of the Python library that the code calls are parameters of the model.
  Coordinates have the type \<open>'f\<close> of Python floats; instants are microseconds on the
  (naive) local time line, durations are microseconds.
  \<^item> \<open>py_round x n\<close> is \<open>round(x, n)\<close>, \<open>py_str x\<close> the text an f-string gives \<open>x\<close>;
  \<^item> \<open>md5_hex s\<close> is \<open>hashlib.md5(s.encode()).hexdigest()\<close>;
  \<^item> \<open>fromisoformat s\<close> is \<open>datetime.fromisoformat(s)\<close> followed by the subtraction
    from the naive \<open>now\<close>: \<open>None\<close> where one of the two raises ValueError or TypeError;
  \<^item> \<open>isoformat t\<close> is \<open>t.isoformat()\<close>; \<open>str_upper\<close> is \<open>str.upper\<close>,
    \<open>str_lower\<close> is \<open>str.lower\<close>;
  \<^item> \<open>parse_float s\<close> is \<open>float(s)\<close>, \<open>None\<close> where it raises ValueError;
  \<^item> \<open>path_join root file\<close> is the path \<open>Path(root) / file\<close> of \<open>pathlib\<close>.
\<close>

record 'f pylib =
  py_round :: "'f \<Rightarrow> int \<Rightarrow> 'f"
  py_str :: "'f \<Rightarrow> string"
  md5_hex :: "string \<Rightarrow> string"
  fromisoformat :: "string \<Rightarrow> int option"
  isoformat :: "int \<Rightarrow> string"
  str_upper :: "string \<Rightarrow> string"
  str_lower :: "string \<Rightarrow> string"
  parse_float :: "string \<Rightarrow> 'f option"
  path_join :: "string \<Rightarrow> string \<Rightarrow> string"

text \<open>
  The exceptions that no handler of the modelled code catches: the OSError of
  \<open>stat()\<close> and the OverflowError of \<open>timedelta\<close>. A call either returns a value
  or raises, in both cases with the object as it then is.
\<close>

datatype exn = OSError | OverflowError

datatype ('a, 's) outcome = Return 'a 's | Raise exn 's

fun returns :: "('a, 's) outcome \<Rightarrow> bool" where
  "returns (Return u s) = True"
| "returns (Raise e s) = False"

fun state_of :: "('a, 's) outcome \<Rightarrow> 's" where
  "state_of (Return u s) = s"
| "state_of (Raise e s) = s"

text \<open>
  \<open>timedelta(days=d)\<close> in microseconds. Python raises OverflowError when the
  magnitude of \<open>d\<close> exceeds 999999999 days: this is \<open>None\<close>.
\<close>

definition timedelta_days :: "int \<Rightarrow> int option" where
  "timedelta_days d = (if \<bar>d\<bar> \<le> 999999999 then Some (d * 86400000000) else None)"

section \<open>cache.py: GeocodingCache\<close>

text \<open>
  One value of \<open>cache_data\<close>. Every key of the JSON object may be missing in a file
  that was not written by \<open>set\<close>, hence the options (\<open>entry.get(k)\<close> is the field).
\<close>

record 'f cache_entry =
  timestamp :: "jval option"
  coordinates :: "('f \<times> 'f) option"
  entry_precision :: "int option"
  location_data :: "location option"

text \<open>
  The object: \<open>cache_data\<close> is the dictionary in insertion order. \<open>disk\<close> is the
  content of \<open>cache_file\<close>, \<open>disk_ok\<close> says whether opening it for writing succeeds
  (otherwise \<open>save_cache\<close> catches the IOError), and \<open>save_calls\<close> counts the calls of
  \<open>save_cache\<close>.
\<close>

record 'f geocoding_cache =
  cache_file :: string
  cache_data :: "(string \<times> 'f cache_entry) list"
  cache_max_age_days :: int
  precision :: int
  disk :: "(string \<times> 'f cache_entry) list"
  disk_ok :: bool
  save_calls :: nat

record precision_level =
  level_name :: string
  level_accuracy :: string

text \<open>
  \<open>PRECISION_LEVELS\<close>, with the two fields that the code reads (the third,
  \<open>description\<close>, is read nowhere in the modelled functions).
\<close>

definition PRECISION_LEVELS :: "(int \<times> precision_level) list" where
  "PRECISION_LEVELS =
    [(3, \<lparr>level_name = ''3 Dezimalstellen'', level_accuracy = ''~111m''\<rparr>),
     (4, \<lparr>level_name = ''4 Dezimalstellen'', level_accuracy = ''~11m''\<rparr>),
     (5, \<lparr>level_name = ''5 Dezimalstellen'', level_accuracy = ''~1m''\<rparr>),
     (6, \<lparr>level_name = ''6 Dezimalstellen'', level_accuracy = ''~0.1m''\<rparr>),
     (7, \<lparr>level_name = ''7 Dezimalstellen'', level_accuracy = ''~0.01m''\<rparr>)]"

definition set_precision :: "'f geocoding_cache \<Rightarrow> int \<Rightarrow> 'f geocoding_cache" where
  "set_precision c p =
     (if map_of PRECISION_LEVELS p \<noteq> None then c\<lparr>precision := p\<rparr> else c)"

definition set_max_age_days :: "'f geocoding_cache \<Rightarrow> int \<Rightarrow> 'f geocoding_cache" where
  "set_max_age_days c days =
     (if days > 0 then c\<lparr>cache_max_age_days := days\<rparr> else c)"

definition get_precision_info :: "'f geocoding_cache \<Rightarrow> precision_level" where
  "get_precision_info c =
     (case map_of PRECISION_LEVELS (precision c) of
        Some info \<Rightarrow> info
      | None \<Rightarrow> \<lparr>level_name = ''5 Dezimalstellen'', level_accuracy = ''~1m''\<rparr>)"

definition generate_cache_key :: "'f pylib \<Rightarrow> 'f geocoding_cache \<Rightarrow> 'f \<Rightarrow> 'f \<Rightarrow> string" where
  "generate_cache_key lib c lat lon =
     (let lat_rounded = py_round lib lat (precision c);
          lon_rounded = py_round lib lon (precision c);
          key = py_str lib lat_rounded @ '','' @ py_str lib lon_rounded
      in md5_hex lib key)"

definition save_cache :: "'f geocoding_cache \<Rightarrow> 'f geocoding_cache" where
  "save_cache c =
     (if disk_ok c then c\<lparr>disk := cache_data c, save_calls := Suc (save_calls c)\<rparr>
      else c\<lparr>save_calls := Suc (save_calls c)\<rparr>)"

text \<open>
  \<open>get\<close> at the instant \<open>now\<close>. It returns the object as well, so that what it does
  to the store is part of the model: every branch leaves the object as it was. The
  duration \<open>timedelta(days=self.cache_max_age_days)\<close> is computed after the timestamp
  has been parsed and subtracted; its OverflowError is not among the handled exceptions.
\<close>

definition get ::
  "'f pylib \<Rightarrow> int \<Rightarrow> 'f geocoding_cache \<Rightarrow> 'f \<Rightarrow> 'f \<Rightarrow>
   (location option, 'f geocoding_cache) outcome"
where
  "get lib now c lat lon =
     (let cache_key = generate_cache_key lib c lat lon in
      case map_of (cache_data c) cache_key of
        None \<Rightarrow> Return None c
      | Some cache_entry \<Rightarrow>
          (case timestamp cache_entry of
             None \<Rightarrow> Return None c
           | Some timestamp_str \<Rightarrow>
               if \<not> truthy timestamp_str then Return None c
               else
                 (case timestamp_str of
                    JStr s \<Rightarrow>
                      (case fromisoformat lib s of
                         None \<Rightarrow> Return None c
                       | Some ts \<Rightarrow>
                           (case timedelta_days (cache_max_age_days c) of
                              None \<Rightarrow> Raise OverflowError c
                            | Some max_age \<Rightarrow>
                                if now - ts > max_age then Return None c
                                else Return (location_data cache_entry) c))
                  | _ \<Rightarrow> Return None c)))"

text \<open>\<open>set\<close> at the instant \<open>now\<close> (the name \<open>set\<close> is taken in HOL).\<close>

definition set_entry ::
  "'f pylib \<Rightarrow> int \<Rightarrow> 'f geocoding_cache \<Rightarrow> 'f \<Rightarrow> 'f \<Rightarrow> location \<Rightarrow> 'f geocoding_cache"
where
  "set_entry lib now c lat lon loc =
     (let cache_key = generate_cache_key lib c lat lon;
          entry = \<lparr>timestamp = Some (JStr (isoformat lib now)),
                   coordinates = Some (py_round lib lat (precision c), py_round lib lon (precision c)),
                   entry_precision = Some (precision c),
                   location_data = Some loc\<rparr>
      in save_cache (c\<lparr>cache_data := AList.update cache_key entry (cache_data c)\<rparr>))"

text \<open>
  The first loop of \<open>clear_old_entries\<close>: the keys to delete, in the order of the
  dictionary. An entry whose timestamp is missing or falsy is passed over (the \<open>if\<close>
  has no \<open>else\<close>); a truthy one that does not parse is appended by the handler. The
  result is \<open>None\<close> when the loop is left by the OverflowError of
  \<open>timedelta(days=max_age_days)\<close>, which is computed for each entry whose timestamp
  has been parsed.
\<close>

fun keys_to_delete ::
  "'f pylib \<Rightarrow> int \<Rightarrow> int \<Rightarrow> (string \<times> 'f cache_entry) list \<Rightarrow> string list option"
where
  "keys_to_delete lib now max_age_days [] = Some []"
| "keys_to_delete lib now max_age_days ((key, entry) # rest) =
     (case timestamp entry of
        None \<Rightarrow> keys_to_delete lib now max_age_days rest
      | Some timestamp_str \<Rightarrow>
          if truthy timestamp_str then
            (case timestamp_str of
               JStr s \<Rightarrow>
                 (case fromisoformat lib s of
                    None \<Rightarrow> map_option (Cons key) (keys_to_delete lib now max_age_days rest)
                  | Some ts \<Rightarrow>
                      (case timedelta_days max_age_days of
                         None \<Rightarrow> None
                       | Some max_age \<Rightarrow>
                           if now - ts > max_age
                           then map_option (Cons key) (keys_to_delete lib now max_age_days rest)
                           else keys_to_delete lib now max_age_days rest))
             | _ \<Rightarrow> map_option (Cons key) (keys_to_delete lib now max_age_days rest))
          else keys_to_delete lib now max_age_days rest)"

text \<open>The second loop: \<open>del self.cache_data[key]\<close> for each collected key.\<close>

fun delete_keys :: "string list \<Rightarrow> (string \<times> 'a) list \<Rightarrow> (string \<times> 'a) list" where
  "delete_keys [] d = d"
| "delete_keys (key # keys) d = delete_keys keys (AList.delete key d)"

definition clear_old_entries ::
  "'f pylib \<Rightarrow> int \<Rightarrow> 'f geocoding_cache \<Rightarrow> int option \<Rightarrow> (nat, 'f geocoding_cache) outcome"
where
  "clear_old_entries lib now c max_age_days =
     (let max_age = (case max_age_days of None \<Rightarrow> cache_max_age_days c | Some d \<Rightarrow> d)
      in case keys_to_delete lib now max_age (cache_data c) of
           None \<Rightarrow> Raise OverflowError c
         | Some keys \<Rightarrow>
             (let c1 = c\<lparr>cache_data := delete_keys keys (cache_data c)\<rparr>;
                  c2 = (if keys \<noteq> [] then save_cache c1 else c1)
              in Return (length keys) c2))"

record cache_stats =
  st_total :: nat
  st_valid :: nat
  st_expired :: nat
  st_cache_file :: string
  st_max_age_days :: int
  st_precision :: int
  st_precision_name :: string
  st_precision_accuracy :: string

text \<open>
  The loop of \<open>get_stats\<close> over the values: the pair (valid, expired). As in
  \<open>clear_old_entries\<close>, an entry with a missing or falsy timestamp is passed over, and
  the result is \<open>None\<close> when the loop is left by the OverflowError of \<open>timedelta\<close>.
\<close>

fun count_entries ::
  "'f pylib \<Rightarrow> int \<Rightarrow> int \<Rightarrow> (string \<times> 'f cache_entry) list \<Rightarrow> nat \<times> nat \<Rightarrow>
   (nat \<times> nat) option"
where
  "count_entries lib now max_age_days [] (valid_entries, expired_entries) =
     Some (valid_entries, expired_entries)"
| "count_entries lib now max_age_days ((key, entry) # rest) (valid_entries, expired_entries) =
     (case timestamp entry of
        None \<Rightarrow> count_entries lib now max_age_days rest (valid_entries, expired_entries)
      | Some timestamp_str \<Rightarrow>
          if truthy timestamp_str then
            (case timestamp_str of
               JStr s \<Rightarrow>
                 (case fromisoformat lib s of
                    None \<Rightarrow>
                      count_entries lib now max_age_days rest (valid_entries, expired_entries + 1)
                  | Some ts \<Rightarrow>
                      (case timedelta_days max_age_days of
                         None \<Rightarrow> None
                       | Some max_age \<Rightarrow>
                           if now - ts \<le> max_age
                           then count_entries lib now max_age_days rest
                                  (valid_entries + 1, expired_entries)
                           else count_entries lib now max_age_days rest
                                  (valid_entries, expired_entries + 1)))
             | _ \<Rightarrow> count_entries lib now max_age_days rest (valid_entries, expired_entries + 1))
          else count_entries lib now max_age_days rest (valid_entries, expired_entries))"

definition get_stats ::
  "'f pylib \<Rightarrow> int \<Rightarrow> 'f geocoding_cache \<Rightarrow> (cache_stats, 'f geocoding_cache) outcome"
where
  "get_stats lib now c =
     (let total_entries = length (cache_data c)
      in case count_entries lib now (cache_max_age_days c) (cache_data c) (0, 0) of
           None \<Rightarrow> Raise OverflowError c
         | Some (valid_entries, expired_entries) \<Rightarrow>
             (let precision_info = get_precision_info c
              in Return \<lparr>st_total = total_entries,
                          st_valid = valid_entries,
                          st_expired = expired_entries,
                          st_cache_file = cache_file c,
                          st_max_age_days = cache_max_age_days c,
                          st_precision = precision c,
                          st_precision_name = level_name precision_info,
                          st_precision_accuracy = level_accuracy precision_info\<rparr> c))"

section \<open>worker.py: GeocodingWorker\<close>

subsection \<open>Strings\<close>

text \<open>
  Strings are lists of 8-bit characters. \<open>py_isspace\<close> is \<open>str.isspace\<close> on them,
  \<open>strip\<close> is \<open>str.strip()\<close>, \<open>split_on sep s\<close> is \<open>s.split(sep)\<close> for a separator
  of one character (the result is never empty), \<open>contains sub s\<close> is \<open>sub in s\<close> and
  \<open>ends_with s suffix\<close> is \<open>s.endswith(suffix)\<close>.
\<close>

definition py_isspace :: "char \<Rightarrow> bool" where
  "py_isspace ch =
     (let n = (of_char ch :: int)
      in (9 \<le> n \<and> n \<le> 13) \<or> (28 \<le> n \<and> n \<le> 32) \<or> n = 133 \<or> n = 160)"

definition strip :: "string \<Rightarrow> string" where
  "strip s = rev (dropWhile py_isspace (rev (dropWhile py_isspace s)))"

fun split_acc :: "char \<Rightarrow> string \<Rightarrow> string \<Rightarrow> string list" where
  "split_acc sep acc [] = [rev acc]"
| "split_acc sep acc (ch # rest) =
     (if ch = sep then rev acc # split_acc sep [] rest
      else split_acc sep (ch # acc) rest)"

definition split_on :: "char \<Rightarrow> string \<Rightarrow> string list" where
  "split_on sep s = split_acc sep [] s"

fun starts_with :: "string \<Rightarrow> string \<Rightarrow> bool" where
  "starts_with s [] = True"
| "starts_with [] (p # ps) = False"
| "starts_with (ch # rest) (p # ps) = (ch = p \<and> starts_with rest ps)"

fun contains :: "string \<Rightarrow> string \<Rightarrow> bool" where
  "contains sub [] = (sub = [])"
| "contains sub (ch # rest) = (starts_with (ch # rest) sub \<or> contains sub rest)"

definition ends_with :: "string \<Rightarrow> string \<Rightarrow> bool" where
  "ends_with s suffix = starts_with (rev s) (rev suffix)"

text \<open>\<open>d.get(k, default)\<close> and the truth value of \<open>d.get(k)\<close> for a dictionary of strings.\<close>

definition dict_get :: "location \<Rightarrow> string \<Rightarrow> string \<Rightarrow> string" where
  "dict_get d k dflt = (case map_of d k of None \<Rightarrow> dflt | Some v \<Rightarrow> v)"

definition has_value :: "location \<Rightarrow> string \<Rightarrow> bool" where
  "has_value d k = (case map_of d k of None \<Rightarrow> False | Some v \<Rightarrow> v \<noteq> [])"

text \<open>The truth value of an \<open>Optional[Dict]\<close>: \<open>None\<close> and the empty dictionary are falsy.\<close>

fun truthy_location :: "location option \<Rightarrow> bool" where
  "truthy_location None = False"
| "truthy_location (Some d) = (d \<noteq> [])"

text \<open>
  Paths are strings: \<open>path.name\<close>, and \<open>path.with_suffix(path.suffix + '.xmp')\<close>,
  which appends \<open>.xmp\<close> to the name.
\<close>

definition path_name :: "string \<Rightarrow> string" where
  "path_name p = rev (takeWhile (\<lambda>ch. ch \<noteq> CHR ''/'') (rev p))"

definition xmp_path_of :: "string \<Rightarrow> string" where
  "xmp_path_of image_path = image_path @ ''.xmp''"

subsection \<open>The world outside the process\<close>

text \<open>
  What \<open>subprocess.run\<close> gives: a completed process with its return code and standard
  output, or one of the exceptions that the handlers of the worker distinguish.
\<close>

datatype proc_result =
  Completed int string
| TimeoutExpired
| FileNotFoundError
| OtherException

text \<open>
  What \<open>requests.get\<close>, \<open>raise_for_status\<close> and \<open>response.json()\<close> give: a
  \<open>RequestException\<close>, another exception, or the decoded body. Of the body the code reads
  \<open>data['features']\<close> (\<open>None\<close>: the key is missing) and of each feature its
  \<open>'properties'\<close> (\<open>None\<close>: the key is missing, a KeyError).
\<close>

datatype http_response =
  HttpRequestException
| HttpOtherException
| HttpJson "location option list option"

text \<open>
  Every interaction with the world is recorded in the trace \<open>calls\<close> of the worker, and
  the world answers the \<open>n\<close>-th interaction of a run through one of the functions below
  (\<open>n\<close> is the length of the trace, so answers may change over time).
  \<open>datetime_now n\<close> is the clock when the trace has the length \<open>n\<close>; reading it
  is not recorded. \<open>stat_mtime\<close> is \<open>None\<close> where \<open>stat()\<close> raises OSError. \<open>stop_requested i\<close> says
  whether the controlling thread calls \<open>stop()\<close> while the file of index \<open>i\<close> is being
  processed.
\<close>

datatype 'f ext_call =
  Exists string
| Stat string
| Run "string list"
| HttpGet 'f 'f
| Walk string

record 'f world =
  path_exists :: "nat \<Rightarrow> string \<Rightarrow> bool"
  stat_mtime :: "nat \<Rightarrow> string \<Rightarrow> int option"
  subprocess_run :: "nat \<Rightarrow> string list \<Rightarrow> proc_result"
  requests_get :: "nat \<Rightarrow> 'f \<Rightarrow> 'f \<Rightarrow> http_response"
  datetime_now :: "nat \<Rightarrow> int"
  os_walk :: "nat \<Rightarrow> string \<Rightarrow> (string \<times> string list) list"
  stop_requested :: "nat \<Rightarrow> bool"

subsection \<open>The worker object\<close>

record run_stats =
  cache_hits :: nat
  api_calls :: nat
  total_processed :: nat
  skipped_already_tagged :: nat
  skipped_no_gps :: nat
  metadata_written :: nat
  metadata_unchanged :: nat

text \<open>
  The lines given to the \<open>log\<close> signal, by the place of the code that emits them and
  the values formatted into them (the text itself is not modelled).
\<close>

datatype stat_label =
  FoundFiles
| ProcessedFiles
| SkippedTagged
| SkippedNoGps
| CacheHits
| ApiCalls
| MetadataWritten
| MetadataUnchanged

datatype 'f log_line =
  LSearching
| LNoFiles
| LFound nat
| LPrecision string string
| LLifetime int
| LSkipNote
| LRule
| LCancelled
| LSummaryStart
| LSummaryTitle
| LStat stat_label nat
| LCacheRate nat nat
| LSummaryEnd
| LDone
| LImage string
| LAlreadyTagged
| LNoGps
| LGps 'f 'f
| LNoLocation
| LLocation string
| LAlreadyCorrect
| LXmpNewer
| LReadTimeout
| LToolNotFound
| LReadError
| LCacheHit
| LApiQuery
| LApiError
| LResolveError
| LWritten
| LXmpUpdated
| LToolError
| LWriteTimeout
| LWriteError

datatype 'f signal =
  Progress nat nat
| Log "'f log_line"
| Finished
| Error exn
| CacheStats run_stats

record 'f worker =
  directory :: string
  exiftool_path :: string
  file_types :: "string list"
  cache :: "'f geocoding_cache"
  skip_existing :: bool
  should_stop :: bool
  stats :: run_stats
  signals :: "'f signal list"
  calls :: "'f ext_call list"

definition emit :: "'f signal \<Rightarrow> 'f worker \<Rightarrow> 'f worker" where
  "emit s st = st\<lparr>signals := signals st @ [s]\<rparr>"

definition log :: "'f log_line \<Rightarrow> 'f worker \<Rightarrow> 'f worker" where
  "log l st = emit (Log l) st"

definition record_call :: "'f ext_call \<Rightarrow> 'f worker \<Rightarrow> 'f worker" where
  "record_call c st = st\<lparr>calls := calls st @ [c]\<rparr>"

definition stop :: "'f worker \<Rightarrow> 'f worker" where
  "stop st = st\<lparr>should_stop := True\<rparr>"

subsection \<open>Reading files through the external tool\<close>

definition find_image_files ::
  "'f pylib \<Rightarrow> 'f world \<Rightarrow> 'f worker \<Rightarrow> string list \<times> 'f worker"
where
  "find_image_files lib w st =
     (let walked = os_walk w (length (calls st)) (directory st);
          st1 = record_call (Walk (directory st)) st;
          image_files =
            concat (map (\<lambda>(root, files).
              map (path_join lib root)
                (filter (\<lambda>file. list_ex (\<lambda>ft. ends_with (str_lower lib file) ft) (file_types st))
                   files)) walked)
      in (image_files, st1))"

definition check_existing_location_data ::
  "'f world \<Rightarrow> 'f worker \<Rightarrow> string \<Rightarrow> bool \<times> 'f worker"
where
  "check_existing_location_data w st image_path =
     (let argv = [exiftool_path st, ''-IPTC:City'', ''-XMP:City'', ''-s3'', image_path];
          result = subprocess_run w (length (calls st)) argv;
          st1 = record_call (Run argv) st
      in case result of
           Completed returncode out \<Rightarrow> (strip out \<noteq> [], st1)
         | _ \<Rightarrow> (False, st1))"

text \<open>\<open>line.split(':')[1]\<close>: \<open>None\<close> is the IndexError.\<close>

definition second_field :: "string \<Rightarrow> string option" where
  "second_field line =
     (let parts = split_on CHR '':'' line
      in if length parts > 1 then Some (parts ! 1) else None)"

text \<open>The loop of \<open>get_gps_data\<close> over the lines of the output.\<close>

fun parse_gps_lines ::
  "'f pylib \<Rightarrow> string list \<Rightarrow> 'f option \<times> 'f option \<Rightarrow> 'f option \<times> 'f option"
where
  "parse_gps_lines lib [] (lat, lon) = (lat, lon)"
| "parse_gps_lines lib (line # rest) (lat, lon) =
     (if contains ''GPS Latitude'' line then
        (case second_field line of
           None \<Rightarrow> parse_gps_lines lib rest (lat, lon)
         | Some field \<Rightarrow>
             (case parse_float lib (strip field) of
                None \<Rightarrow> parse_gps_lines lib rest (lat, lon)
              | Some v \<Rightarrow> parse_gps_lines lib rest (Some v, lon)))
      else if contains ''GPS Longitude'' line then
        (case second_field line of
           None \<Rightarrow> parse_gps_lines lib rest (lat, lon)
         | Some field \<Rightarrow>
             (case parse_float lib (strip field) of
                None \<Rightarrow> parse_gps_lines lib rest (lat, lon)
              | Some v \<Rightarrow> parse_gps_lines lib rest (lat, Some v)))
      else parse_gps_lines lib rest (lat, lon))"

text \<open>
  The choice between the image and its sidecar, before the \<open>try\<close> of \<open>get_gps_data\<close>:
  an OSError of \<open>stat()\<close> is not caught there.
\<close>

definition choose_file_to_read ::
  "'f world \<Rightarrow> 'f worker \<Rightarrow> string \<Rightarrow> (string, 'f worker) outcome"
where
  "choose_file_to_read w st image_path =
     (let xmp_path = xmp_path_of image_path;
          xmp_exists = path_exists w (length (calls st)) xmp_path;
          st1 = record_call (Exists xmp_path) st
      in if xmp_exists then
           (let image_stat = stat_mtime w (length (calls st1)) image_path;
                st2 = record_call (Stat image_path) st1
            in case image_stat of
                 None \<Rightarrow> Raise OSError st2
               | Some image_mtime \<Rightarrow>
                   (let xmp_stat = stat_mtime w (length (calls st2)) xmp_path;
                        st3 = record_call (Stat xmp_path) st2
                    in case xmp_stat of
                         None \<Rightarrow> Raise OSError st3
                       | Some xmp_mtime \<Rightarrow>
                           if xmp_mtime > image_mtime
                           then Return xmp_path (log LXmpNewer st3)
                           else Return image_path st3))
         else Return image_path st1)"

definition get_gps_data ::
  "'f pylib \<Rightarrow> 'f world \<Rightarrow> 'f worker \<Rightarrow> string \<Rightarrow> (('f \<times> 'f) option, 'f worker) outcome"
where
  "get_gps_data lib w st image_path =
     (case choose_file_to_read w st image_path of
        Raise e st1 \<Rightarrow> Raise e st1
      | Return file_to_read st1 \<Rightarrow>
          (let argv = [exiftool_path st1, ''-GPSLatitude'', ''-GPSLongitude'', ''-n'', file_to_read];
               result = subprocess_run w (length (calls st1)) argv;
               st2 = record_call (Run argv) st1
           in case result of
                Completed returncode out \<Rightarrow>
                  if returncode \<noteq> 0 then Return None st2
                  else
                    (case parse_gps_lines lib (split_on CHR 0x0A out) (None, None) of
                       (Some lat, Some lon) \<Rightarrow> Return (Some (lat, lon)) st2
                     | _ \<Rightarrow> Return None st2)
              | TimeoutExpired \<Rightarrow> Return None (log LReadTimeout st2)
              | FileNotFoundError \<Rightarrow> Return None (log LToolNotFound st2)
              | OtherException \<Rightarrow> Return None (log LReadError st2)))"

text \<open>\<open>lines[i] if len(lines) > i else ''\<close>.\<close>

definition line_or_empty :: "string list \<Rightarrow> nat \<Rightarrow> string" where
  "line_or_empty lines i = (if length lines > i then lines ! i else [])"

definition compare_location_data ::
  "'f world \<Rightarrow> 'f worker \<Rightarrow> string \<Rightarrow> location \<Rightarrow> bool \<times> 'f worker"
where
  "compare_location_data w st image_path new_location =
     (let argv = [exiftool_path st, ''-IPTC:City'', ''-IPTC:Province-State'',
                  ''-IPTC:Country-PrimaryLocationName'', ''-s3'', image_path];
          result = subprocess_run w (length (calls st)) argv;
          st1 = record_call (Run argv) st
      in case result of
           Completed returncode out \<Rightarrow>
             (let lines = split_on CHR 0x0A (strip out);
                  existing_city = line_or_empty lines 0;
                  existing_state = line_or_empty lines 1;
                  existing_country = line_or_empty lines 2;
                  new_city = dict_get new_location ''city'' [];
                  new_state = dict_get new_location ''state'' [];
                  new_country = dict_get new_location ''country'' []
              in if existing_city = new_city \<and> existing_state = new_state \<and>
                    existing_country = new_country
                 then (False, st1)
                 else (True, st1))
         | _ \<Rightarrow> (True, st1))"

subsection \<open>Resolving coordinates\<close>

text \<open>The record built from the properties of the first feature, key by key.\<close>

definition location_of_props :: "location \<Rightarrow> location" where
  "location_of_props props =
     [(''country'', dict_get props ''country'' []),
      (''state'', dict_get props ''state'' []),
      (''county'', dict_get props ''county'' []),
      (''city'', dict_get props ''city'' []),
      (''suburb'', dict_get props ''suburb'' []),
      (''district'', dict_get props ''district'' []),
      (''street'', dict_get props ''street'' []),
      (''housenumber'', dict_get props ''housenumber'' []),
      (''postcode'', dict_get props ''postcode'' []),
      (''name'', dict_get props ''name'' []),
      (''locality'', dict_get props ''locality'' []),
      (''countrycode'', dict_get props ''countrycode'' [])]"

definition bump_cache_hits :: "'f worker \<Rightarrow> 'f worker" where
  "bump_cache_hits st = st\<lparr>stats := (stats st)\<lparr>cache_hits := cache_hits (stats st) + 1\<rparr>\<rparr>"

definition bump_api_calls :: "'f worker \<Rightarrow> 'f worker" where
  "bump_api_calls st = st\<lparr>stats := (stats st)\<lparr>api_calls := api_calls (stats st) + 1\<rparr>\<rparr>"

text \<open>
  \<open>self.cache.get\<close> is called before the \<open>try\<close> of \<open>reverse_geocode\<close>, so what it
  raises leaves \<open>reverse_geocode\<close> as well.
\<close>

definition reverse_geocode ::
  "'f pylib \<Rightarrow> 'f world \<Rightarrow> 'f worker \<Rightarrow> 'f \<Rightarrow> 'f \<Rightarrow> (location option, 'f worker) outcome"
where
  "reverse_geocode lib w st lat lon =
     (case get lib (datetime_now w (length (calls st))) (cache st) lat lon of
        Raise e c1 \<Rightarrow> Raise e (st\<lparr>cache := c1\<rparr>)
      | Return cached_data c1 \<Rightarrow>
          (let st1 = st\<lparr>cache := c1\<rparr>
           in if truthy_location cached_data then
                Return cached_data (bump_cache_hits (log LCacheHit st1))
              else
                (let st2 = bump_api_calls (log LApiQuery st1);
                     response = requests_get w (length (calls st2)) lat lon;
                     st3 = record_call (HttpGet lat lon) st2
                 in case response of
                      HttpRequestException \<Rightarrow> Return None (log LApiError st3)
                    | HttpOtherException \<Rightarrow> Return None (log LResolveError st3)
                    | HttpJson None \<Rightarrow> Return None st3
                    | HttpJson (Some []) \<Rightarrow> Return None st3
                    | HttpJson (Some (None # others)) \<Rightarrow> Return None (log LResolveError st3)
                    | HttpJson (Some (Some props # others)) \<Rightarrow>
                        (let location_data = location_of_props props;
                             c2 = set_entry lib (datetime_now w (length (calls st3))) (cache st3)
                                    lat lon location_data
                         in Return (Some location_data) (st3\<lparr>cache := c2\<rparr>)))))"

subsection \<open>Writing\<close>

text \<open>\<open>args.extend([...])\<close> if the field has a value.\<close>

definition tags_if :: "bool \<Rightarrow> string list \<Rightarrow> string list" where
  "tags_if b tags = (if b then tags else [])"

definition suburb_or_district :: "location \<Rightarrow> string" where
  "suburb_or_district location =
     (if has_value location ''suburb'' then dict_get location ''suburb'' []
      else dict_get location ''district'' [])"

definition street_full :: "location \<Rightarrow> string" where
  "street_full location =
     (if has_value location ''housenumber''
      then dict_get location ''street'' [] @ '' '' @ dict_get location ''housenumber'' []
      else dict_get location ''street'' [])"

definition write_args :: "'f pylib \<Rightarrow> string \<Rightarrow> string \<Rightarrow> location \<Rightarrow> string list" where
  "write_args lib exiftool image_path location =
     [exiftool]
     @ tags_if (has_value location ''country'')
         [''-IPTC:Country-PrimaryLocationName='' @ dict_get location ''country'' [],
          ''-XMP:Country='' @ dict_get location ''country'' [],
          ''-XMP-iptcExt:LocationShownCountryName='' @ dict_get location ''country'' []]
     @ tags_if (has_value location ''countrycode'')
         [''-IPTC:Country-PrimaryLocationCode='' @ str_upper lib (dict_get location ''countrycode'' []),
          ''-XMP:CountryCode='' @ str_upper lib (dict_get location ''countrycode'' []),
          ''-XMP-iptcExt:LocationShownCountryCode='' @ str_upper lib (dict_get location ''countrycode'' [])]
     @ tags_if (has_value location ''state'')
         [''-IPTC:Province-State='' @ dict_get location ''state'' [],
          ''-XMP:State='' @ dict_get location ''state'' [],
          ''-XMP-iptcExt:LocationShownProvinceState='' @ dict_get location ''state'' []]
     @ tags_if (has_value location ''county'')
         [''-XMP-iptcExt:LocationShownCity='' @ dict_get location ''county'' []]
     @ tags_if (has_value location ''city'')
         [''-IPTC:City='' @ dict_get location ''city'' [],
          ''-XMP:City='' @ dict_get location ''city'' [],
          ''-XMP-photoshop:City='' @ dict_get location ''city'' []]
     @ tags_if (suburb_or_district location \<noteq> [])
         [''-IPTC:Sub-location='' @ suburb_or_district location,
          ''-XMP:Location='' @ suburb_or_district location,
          ''-XMP-iptcExt:LocationShownSublocation='' @ suburb_or_district location]
     @ tags_if (has_value location ''street'')
         [''-XMP-iptcCore:Location='' @ street_full location]
     @ tags_if (has_value location ''postcode'')
         [''-XMP-photoshop:PostalCode='' @ dict_get location ''postcode'' []]
     @ tags_if (has_value location ''name'' \<and> \<not> has_value location ''city'')
         [''-XMP-iptcExt:LocationShownCity='' @ dict_get location ''name'' []]
     @ [''-overwrite_original'', ''-P'', ''-codedcharacterset=utf8'', image_path]"

definition bump_metadata_written :: "'f worker \<Rightarrow> 'f worker" where
  "bump_metadata_written st =
     st\<lparr>stats := (stats st)\<lparr>metadata_written := metadata_written (stats st) + 1\<rparr>\<rparr>"

definition write_location_data ::
  "'f pylib \<Rightarrow> 'f world \<Rightarrow> 'f worker \<Rightarrow> string \<Rightarrow> location \<Rightarrow> 'f worker"
where
  "write_location_data lib w st image_path location =
     (let xmp_path = xmp_path_of image_path;
          args = write_args lib (exiftool_path st) image_path location;
          result = subprocess_run w (length (calls st)) args;
          st1 = record_call (Run args) st
      in case result of
           Completed returncode out \<Rightarrow>
             if returncode = 0 then
               (let st2 = bump_metadata_written (log LWritten st1);
                    xmp_exists = path_exists w (length (calls st2)) xmp_path;
                    st3 = record_call (Exists xmp_path) st2
                in if xmp_exists then
                     (let xmp_args = butlast args @ [xmp_path];
                          xmp_result = subprocess_run w (length (calls st3)) xmp_args;
                          st4 = record_call (Run xmp_args) st3
                      in case xmp_result of
                           Completed xmp_returncode xmp_out \<Rightarrow> log LXmpUpdated st4
                         | TimeoutExpired \<Rightarrow> log LWriteTimeout st4
                         | _ \<Rightarrow> log LWriteError st4)
                   else st3)
             else log LToolError st1
         | TimeoutExpired \<Rightarrow> log LWriteTimeout st1
         | _ \<Rightarrow> log LWriteError st1)"

subsection \<open>One file\<close>

definition bump_skipped_already_tagged :: "'f worker \<Rightarrow> 'f worker" where
  "bump_skipped_already_tagged st =
     st\<lparr>stats := (stats st)\<lparr>skipped_already_tagged := skipped_already_tagged (stats st) + 1\<rparr>\<rparr>"

definition bump_skipped_no_gps :: "'f worker \<Rightarrow> 'f worker" where
  "bump_skipped_no_gps st =
     st\<lparr>stats := (stats st)\<lparr>skipped_no_gps := skipped_no_gps (stats st) + 1\<rparr>\<rparr>"

definition bump_total_processed :: "'f worker \<Rightarrow> 'f worker" where
  "bump_total_processed st =
     st\<lparr>stats := (stats st)\<lparr>total_processed := total_processed (stats st) + 1\<rparr>\<rparr>"

definition bump_metadata_unchanged :: "'f worker \<Rightarrow> 'f worker" where
  "bump_metadata_unchanged st =
     st\<lparr>stats := (stats st)\<lparr>metadata_unchanged := metadata_unchanged (stats st) + 1\<rparr>\<rparr>"

text \<open>\<open>', '.join(parts)\<close>.\<close>

fun join_comma :: "string list \<Rightarrow> string" where
  "join_comma [] = []"
| "join_comma [p] = p"
| "join_comma (p # q # rest) = p @ '', '' @ join_comma (q # rest)"

definition location_str :: "'f pylib \<Rightarrow> location \<Rightarrow> string" where
  "location_str lib location =
     (let location_parts =
            tags_if (has_value location ''street'') [street_full location]
          @ tags_if (has_value location ''postcode'') [dict_get location ''postcode'' []]
          @ tags_if (has_value location ''suburb'' \<or> has_value location ''district'')
              [suburb_or_district location]
          @ tags_if (has_value location ''city'') [dict_get location ''city'' []]
          @ tags_if (has_value location ''county'') [''('' @ dict_get location ''county'' [] @ '')'']
          @ tags_if (has_value location ''state'') [dict_get location ''state'' []]
          @ tags_if (has_value location ''country'')
              [if has_value location ''countrycode''
               then dict_get location ''country'' [] @ '' ('' @
                    str_upper lib (dict_get location ''countrycode'' []) @ '')''
               else dict_get location ''country'' []]
      in join_comma (filter (\<lambda>p. p \<noteq> []) location_parts))"

text \<open>
  The part of \<open>process_image\<close> after \<open>reverse_geocode\<close> has returned \<open>location\<close>
  (from \<open>if not location\<close> to the end).
\<close>

definition process_location ::
  "'f pylib \<Rightarrow> 'f world \<Rightarrow> 'f worker \<Rightarrow> string \<Rightarrow> location option \<Rightarrow> 'f worker"
where
  "process_location lib w st image_path location =
     (if \<not> truthy_location location then log LNoLocation st
      else
        (let loc = (case location of Some d \<Rightarrow> d | None \<Rightarrow> []);
             st1 = bump_total_processed st;
             st2 = log (LLocation (location_str lib loc)) st1;
             (differs, st3) = compare_location_data w st2 image_path loc
         in if \<not> differs then bump_metadata_unchanged (log LAlreadyCorrect st3)
            else write_location_data lib w st3 image_path loc))"

definition process_image ::
  "'f pylib \<Rightarrow> 'f world \<Rightarrow> 'f worker \<Rightarrow> string \<Rightarrow> (unit, 'f worker) outcome"
where
  "process_image lib w st image_path =
     (let st1 = log (LImage (path_name image_path)) st;
          (tagged, st2) =
            (if skip_existing st1 then check_existing_location_data w st1 image_path
             else (False, st1))
      in if tagged then Return () (bump_skipped_already_tagged (log LAlreadyTagged st2))
         else
           (case get_gps_data lib w st2 image_path of
              Raise e st3 \<Rightarrow> Raise e st3
            | Return None st3 \<Rightarrow> Return () (bump_skipped_no_gps (log LNoGps st3))
            | Return (Some (lat, lon)) st3 \<Rightarrow>
                (case reverse_geocode lib w (log (LGps lat lon) st3) lat lon of
                   Raise e st5 \<Rightarrow> Raise e st5
                 | Return location st5 \<Rightarrow>
                     Return () (process_location lib w st5 image_path location))))"

subsection \<open>The run\<close>

text \<open>
  The loop of \<open>run\<close> over \<open>enumerate(image_files)\<close>, from index \<open>i\<close>. The flag is
  read once, before each file. A \<open>stop()\<close> of the controlling thread during the
  processing of a file takes effect in the model when that file is done.
\<close>

fun run_loop ::
  "'f pylib \<Rightarrow> 'f world \<Rightarrow> nat \<Rightarrow> nat \<Rightarrow> string list \<Rightarrow> 'f worker \<Rightarrow> (unit, 'f worker) outcome"
where
  "run_loop lib w n_files i [] st = Return () st"
| "run_loop lib w n_files i (image_file # rest) st =
     (if should_stop st then Return () (log LCancelled st)
      else
        (case process_image lib w (emit (Progress (i + 1) n_files) st) image_file of
           Raise e st1 \<Rightarrow> Raise e st1
         | Return u st1 \<Rightarrow>
             run_loop lib w n_files (i + 1) rest
               (if stop_requested w i then stop st1 else st1)))"

definition log_summary :: "nat \<Rightarrow> 'f worker \<Rightarrow> 'f worker" where
  "log_summary found st =
     (let st1 = log LSummaryStart st;
          st2 = log LSummaryTitle st1;
          st3 = log (LStat FoundFiles found) st2;
          st4 = log (LStat ProcessedFiles (total_processed (stats st3))) st3;
          st5 = log (LStat SkippedTagged (skipped_already_tagged (stats st4))) st4;
          st6 = log (LStat SkippedNoGps (skipped_no_gps (stats st5))) st5;
          st7 = log (LStat CacheHits (cache_hits (stats st6))) st6;
          st8 = log (LStat ApiCalls (api_calls (stats st7))) st7;
          st9 = log (LStat MetadataWritten (metadata_written (stats st8))) st8;
          st10 = log (LStat MetadataUnchanged (metadata_unchanged (stats st9))) st9;
          st11 = (if total_processed (stats st10) > 0
                  then log (LCacheRate (cache_hits (stats st10)) (total_processed (stats st10))) st10
                  else st10)
      in log LSummaryEnd st11)"

text \<open>The lines logged between the search and the loop.\<close>

definition log_header :: "nat \<Rightarrow> 'f worker \<Rightarrow> 'f worker" where
  "log_header found st =
     (let st1 = log (LFound found) st;
          precision_info = get_precision_info (cache st1);
          st2 = log (LPrecision (level_name precision_info) (level_accuracy precision_info)) st1;
          st3 = log (LLifetime (cache_max_age_days (cache st2))) st2;
          st4 = (if skip_existing st3 then log LSkipNote st3 else st3)
      in log LRule st4)"

definition run :: "'f pylib \<Rightarrow> 'f world \<Rightarrow> 'f worker \<Rightarrow> 'f worker" where
  "run lib w st =
     (let st1 = log LSearching st;
          (image_files, st2) = find_image_files lib w st1
      in if image_files = [] then emit Finished (log LNoFiles st2)
         else
           (let st3 = log_header (length image_files) st2
            in case run_loop lib w (length image_files) 0 image_files st3 of
                 Raise e st4 \<Rightarrow> emit (Error e) st4
               | Return u st4 \<Rightarrow>
                   (let st5 = log_summary (length image_files) st4;
                        st6 = emit (CacheStats (stats st5)) st5;
                        st7 = log LDone st6
                    in emit Finished st7)))"

subsection \<open>Notions for stating the cancellation property\<close>

text \<open>
  \<open>process_files\<close> processes the given files one after the other, each after its
  progress signal, without looking at the flag: this is what it means that these files
  are fully processed. \<open>stop_after w st k\<close> says that the flag is found set for the
  first time at the check after \<open>k\<close> files: it is set at the start if \<open>k = 0\<close>, and
  otherwise \<open>stop()\<close> is called while the \<open>k\<close>-th file is processed and not before.
\<close>

fun process_files ::
  "'f pylib \<Rightarrow> 'f world \<Rightarrow> nat \<Rightarrow> nat \<Rightarrow> string list \<Rightarrow> 'f worker \<Rightarrow> (unit, 'f worker) outcome"
where
  "process_files lib w n_files i [] st = Return () st"
| "process_files lib w n_files i (image_file # rest) st =
     (case process_image lib w (emit (Progress (i + 1) n_files) st) image_file of
        Raise e st1 \<Rightarrow> Raise e st1
      | Return u st1 \<Rightarrow> process_files lib w n_files (i + 1) rest st1)"

definition stop_after :: "'f world \<Rightarrow> 'f worker \<Rightarrow> nat \<Rightarrow> bool" where
  "stop_after w st k =
     (if k = 0 then should_stop st
      else \<not> should_stop st \<and> list_all (\<lambda>i. \<not> stop_requested w i) [0..<k - 1] \<and>
           stop_requested w (k - 1))"

fun is_log :: "'f signal \<Rightarrow> bool" where
  "is_log (Log l) = True"
| "is_log s = False"

text \<open>The signals other than log lines, in the order of their emission.\<close>

definition events :: "'f worker \<Rightarrow> 'f signal list" where
  "events st = filter (\<lambda>s. \<not> is_log s) (signals st)"

section \<open>The classes of an entry, in the words of the specification\<close>

text \<open>
  For a threshold \<open>max_age\<close> in microseconds. \<open>entry_old\<close>: the entry has a truthy
  timestamp that does not parse, or that is older than the threshold. \<open>entry_fresh\<close>:
  the entry has a truthy timestamp that parses and is not older than the threshold.
  \<open>entry_untimed\<close>: the timestamp of the entry is missing or falsy (null, the empty
  string).
\<close>

definition entry_old :: "'f pylib \<Rightarrow> int \<Rightarrow> int \<Rightarrow> 'f cache_entry \<Rightarrow> bool" where
  "entry_old lib now max_age e =
     (case timestamp e of
        None \<Rightarrow> False
      | Some v \<Rightarrow> truthy v \<and>
          (case v of
             JStr s \<Rightarrow> (case fromisoformat lib s of None \<Rightarrow> True
                        | Some ts \<Rightarrow> now - ts > max_age)
           | _ \<Rightarrow> True))"

definition entry_fresh :: "'f pylib \<Rightarrow> int \<Rightarrow> int \<Rightarrow> 'f cache_entry \<Rightarrow> bool" where
  "entry_fresh lib now max_age e =
     (case timestamp e of
        None \<Rightarrow> False
      | Some v \<Rightarrow> truthy v \<and>
          (case v of
             JStr s \<Rightarrow> (case fromisoformat lib s of None \<Rightarrow> False
                        | Some ts \<Rightarrow> now - ts \<le> max_age)
           | _ \<Rightarrow> False))"

definition entry_untimed :: "'f cache_entry \<Rightarrow> bool" where
  "entry_untimed e = (case timestamp e of None \<Rightarrow> True | Some v \<Rightarrow> \<not> truthy v)"

section \<open>A concrete library, for evaluating the model\<close>

text \<open>
  An instance of the library parameters: coordinates are integers in units of
  \<open>10\<^sup>-\<^sup>7\<close> degrees, rounded to a multiple of \<open>10\<^sup>7\<^sup>-\<^sup>n\<close>; instants are
  written as decimal numbers of microseconds; the hash is the identity.
\<close>

function show_digits :: "int \<Rightarrow> string" where
  "show_digits n =
     (if n < 10 then [char_of (48 + n)]
      else show_digits (n div 10) @ [char_of (48 + n mod 10)])"
  by pat_completeness auto
termination
  by (relation "measure nat") auto

fun parse_digits :: "string \<Rightarrow> int \<Rightarrow> int option" where
  "parse_digits [] acc = Some acc"
| "parse_digits (ch # rest) acc =
     (if (48::int) \<le> of_char ch \<and> of_char ch \<le> (57::int)
      then parse_digits rest (10 * acc + (of_char ch - 48))
      else None)"

definition demo_lib :: "int pylib" where
  "demo_lib =
     \<lparr>py_round = (\<lambda>x n. (let u = 10 ^ nat (7 - n) in ((x + u div 2) div u) * u)),
      py_str = (\<lambda>x. (if x < 0 then ''-'' else []) @ show_digits \<bar>x\<bar>),
      md5_hex = (\<lambda>s. s),
      fromisoformat = (\<lambda>s. if s = [] then None else parse_digits s 0),
      isoformat = (\<lambda>t. show_digits t),
      str_upper = (\<lambda>s. s),
      str_lower = (\<lambda>s. s),
      parse_float = (\<lambda>s. if s = [] then None else parse_digits s 0),
      path_join = (\<lambda>root file. root @ ''/'' @ file)\<rparr>"

definition empty_cache :: "int geocoding_cache" where
  "empty_cache =
     \<lparr>cache_file = ''geocoding_cache.json'', cache_data = [], cache_max_age_days = 30,
      precision = 5, disk = [], disk_ok = True, save_calls = 0\<rparr>"

text \<open>A store with one entry, written at the instant 1700000000000000.\<close>

definition old_entry :: "int cache_entry" where
  "old_entry =
     \<lparr>timestamp = Some (JStr ''1700000000000000''), coordinates = Some (488583700, 22944800),
      entry_precision = Some 5, location_data = Some [(''city'', ''Paris'')]\<rparr>"

definition one_entry_cache :: "int geocoding_cache" where
  "one_entry_cache = empty_cache\<lparr>cache_data := [(''488583700,22944800'', old_entry)]\<rparr>"

text \<open>
  A store whose only entry has no timestamp, and a store with an entry older than 30
  days, a younger one and one without timestamp (at the instant 1702678400000000).
\<close>

definition bare_cache :: "int geocoding_cache" where
  "bare_cache = empty_cache\<lparr>cache_data := [(''bare'', old_entry\<lparr>timestamp := None\<rparr>)]\<rparr>"

definition three_entry_cache :: "int geocoding_cache" where
  "three_entry_cache = empty_cache\<lparr>cache_data :=
     [(''488583700,22944800'', old_entry),
      (''new'', old_entry\<lparr>timestamp := Some (JStr ''1702600000000000'')\<rparr>),
      (''bare'', old_entry\<lparr>timestamp := None\<rparr>)]\<rparr>"

text \<open>
  A world whose directory holds three image files and a text file. The probe for
  existing location data finds a city in a file named \<open>tagged.jpg\<close> only, a file
  named \<open>sea.jpg\<close> has no GPS fields, every other file is in Paris; a minute passes
  between two interactions, and \<open>stop()\<close> is called while the second file is
  processed.
\<close>

definition zero_stats :: run_stats where
  "zero_stats =
     \<lparr>cache_hits = 0, api_calls = 0, total_processed = 0, skipped_already_tagged = 0,
      skipped_no_gps = 0, metadata_written = 0, metadata_unchanged = 0\<rparr>"

definition demo_world :: "int world" where
  "demo_world =
     \<lparr>path_exists = (\<lambda>n p. False),
      stat_mtime = (\<lambda>n p. None),
      subprocess_run = (\<lambda>n argv.
        if argv ! 1 = ''-GPSLatitude'' then
          (if last argv = ''/photos/sea.jpg'' then Completed 0 []
           else Completed 0
             (''GPS Latitude                    : 488583701'' @ [CHR 0x0A] @
              ''GPS Longitude                   : 22944803'' @ [CHR 0x0A]))
        else if argv ! 2 = ''-XMP:City'' then
          (if last argv = ''/photos/tagged.jpg'' then Completed 0 (''Paris'' @ [CHR 0x0A])
           else Completed 0 [])
        else Completed 0 []),
      requests_get = (\<lambda>n lat lon.
        HttpJson (Some [Some [(''city'', ''Paris''), (''country'', ''Frankreich'')]])),
      datetime_now = (\<lambda>n. 1700000000000000 + 60000000 * int n),
      os_walk = (\<lambda>n d. [(d, [''a.jpg'', ''b.jpg'', ''notes.txt'', ''c.jpg''])]),
      stop_requested = (\<lambda>i. i = 1)\<rparr>"

definition demo_worker :: "int worker" where
  "demo_worker =
     \<lparr>directory = ''/photos'', exiftool_path = ''exiftool'', file_types = [''.jpg'', ''.png''],
      cache = empty_cache, skip_existing = True, should_stop = False, stats = zero_stats,
      signals = [], calls = []\<rparr>"

definition empty_location_worker :: "int worker" where
  "empty_location_worker =
     demo_worker\<lparr>cache := empty_cache\<lparr>cache_data :=
       [(''488583700,22944800'', old_entry\<lparr>location_data := Some []\<rparr>)]\<rparr>\<rparr>"

text \<open>The image files that \<open>find_image_files\<close> finds in this world.\<close>

definition demo_files :: "string list" where
  "demo_files = [''/photos/a.jpg'', ''/photos/b.jpg'', ''/photos/c.jpg'']"

text \<open>
  A second instance, for the sign of zero: a float is a sign and a magnitude in units of
  \<open>10\<^sup>-\<^sup>7\<close>, so that \<open>-0.0\<close> and \<open>0.0\<close> are two floats of the same value, as in
  Python. \<open>round\<close> keeps the sign, and the floats are printed as Python prints them
  (\<open>-0.0\<close>, \<open>0.0\<close>, \<open>2.29448\<close>).
\<close>

datatype pyfloat = PyFloat bool int

fun float_value :: "pyfloat \<Rightarrow> int" where
  "float_value (PyFloat negative m) = (if negative then - m else m)"

definition show_fraction :: "int \<Rightarrow> string" where
  "show_fraction f =
     (let digits = replicate (7 - length (show_digits f)) (CHR ''0'') @ show_digits f;
          stripped = rev (dropWhile (\<lambda>ch. ch = CHR ''0'') (rev digits))
      in if stripped = [] then ''0'' else stripped)"

fun show_float :: "pyfloat \<Rightarrow> string" where
  "show_float (PyFloat negative m) =
     (if negative then ''-'' else []) @ show_digits (m div 10000000) @ ''.'' @
     show_fraction (m mod 10000000)"

fun round_float :: "pyfloat \<Rightarrow> int \<Rightarrow> pyfloat" where
  "round_float (PyFloat negative m) n =
     (let u = 10 ^ nat (7 - n) in PyFloat negative (((m + u div 2) div u) * u))"

definition signed_lib :: "pyfloat pylib" where
  "signed_lib =
     \<lparr>py_round = round_float,
      py_str = show_float,
      md5_hex = (\<lambda>s. s),
      fromisoformat = fromisoformat demo_lib,
      isoformat = isoformat demo_lib,
      str_upper = (\<lambda>s. s),
      str_lower = (\<lambda>s. s),
      parse_float = (\<lambda>s. None),
      path_join = (\<lambda>root file. root @ ''/'' @ file)\<rparr>"

definition signed_cache :: "pyfloat geocoding_cache" where
  "signed_cache =
     \<lparr>cache_file = ''geocoding_cache.json'', cache_data = [], cache_max_age_days = 30,
      precision = 5, disk = [], disk_ok = True, save_calls = 0\<rparr>"

text \<open>
  A cache whose maximal age is beyond the range of \<open>timedelta\<close>, a worker with such
  a cache that holds a fresh entry with an empty record, and a world in which
  \<open>stop()\<close> is called while the last of the three files is processed.
\<close>

definition long_lived_cache :: "int geocoding_cache" where
  "long_lived_cache = empty_cache\<lparr>cache_max_age_days := 1000000000\<rparr>"

definition long_lived_worker :: "int worker" where
  "long_lived_worker =
     demo_worker\<lparr>cache := long_lived_cache\<lparr>cache_data :=
       [(''488583700,22944800'', old_entry\<lparr>location_data := Some []\<rparr>)]\<rparr>\<rparr>"

definition late_stop_world :: "int world" where
  "late_stop_world = demo_world\<lparr>stop_requested := (\<lambda>i. i = 2)\<rparr>"

text \<open>A world whose service finds no feature at any coordinates.\<close>

definition silent_world :: "int world" where
  "silent_world = demo_world\<lparr>requests_get := (\<lambda>n lat lon. HttpJson (Some []))\<rparr>"

section \<open>Properties of the cache\<close>

lemma map_of_update_same: "map_of (AList.update k v al) k = Some v"
  by (simp add: AList.update_conv')

lemma timedelta_days_in_range:
  "\<bar>d\<bar> \<le> 999999999 \<Longrightarrow> timedelta_days d = Some (d * 86400000000)"
  by (simp add: timedelta_days_def)

lemma keys_to_delete_Cons:
  "timedelta_days m = Some max_age \<Longrightarrow>
   keys_to_delete lib now m ((k, e) # rest) =
     (if entry_old lib now max_age e then map_option (Cons k) (keys_to_delete lib now m rest)
      else keys_to_delete lib now m rest)"
  by (simp add: entry_old_def split: option.splits jval.splits)

lemma keys_to_delete_filter:
  assumes "timedelta_days m = Some max_age"
  shows "keys_to_delete lib now m xs =
           Some (map fst (filter (\<lambda>(k, e). entry_old lib now max_age e) xs))"
proof (induction xs)
  case Nil
  show ?case by simp
next
  case (Cons p xs)
  obtain k e where p: "p = (k, e)" by (cases p)
  show ?case unfolding p keys_to_delete_Cons [OF assms] using Cons.IH by simp
qed

lemma delete_keys_filter:
  "delete_keys ks d = filter (\<lambda>(k, e). k \<notin> set ks) d"
  by (induction ks arbitrary: d) (auto simp: AList.delete_eq intro: filter_cong)

lemma count_entries_Cons:
  "timedelta_days m = Some max_age \<Longrightarrow>
   count_entries lib now m ((k, e) # rest) (v, x) =
     (if entry_fresh lib now max_age e then count_entries lib now m rest (v + 1, x)
      else if entry_old lib now max_age e then count_entries lib now m rest (v, x + 1)
      else count_entries lib now m rest (v, x))"
  by (simp add: entry_old_def entry_fresh_def split: option.splits jval.splits)

lemma fresh_not_old: "entry_fresh lib now m e \<Longrightarrow> \<not> entry_old lib now m e"
  by (auto simp: entry_old_def entry_fresh_def split: option.splits jval.splits)

lemma count_entries_filter:
  assumes "timedelta_days m = Some max_age"
  shows "count_entries lib now m xs (v, x) =
     Some (v + length (filter (\<lambda>(k, e). entry_fresh lib now max_age e) xs),
           x + length (filter (\<lambda>(k, e). entry_old lib now max_age e) xs))"
proof (induction xs arbitrary: v x)
  case Nil
  show ?case by simp
next
  case (Cons p xs)
  obtain k e where p: "p = (k, e)" by (cases p)
  show ?case
    unfolding p count_entries_Cons [OF assms]
    using Cons.IH fresh_not_old [of lib now max_age e] by simp
qed

lemma distinct_filter_keys:
  "distinct (map fst xs) \<Longrightarrow>
   filter (\<lambda>(k, e). k \<notin> fst ` set (filter (\<lambda>(k, e). P e) xs)) xs = filter (\<lambda>(k, e). \<not> P e) xs"
  by (rule filter_cong) (auto simp: image_iff dest: eq_key_imp_eq_value)


lemma entry_classes:
  "length xs =
     length (filter (\<lambda>(k, e). entry_fresh lib now m e) xs) +
     length (filter (\<lambda>(k, e). entry_old lib now m e) xs) +
     length (filter (\<lambda>(k, e). entry_untimed e) xs)"
proof (induction xs)
  case Nil
  show ?case by simp
next
  case (Cons p xs)
  obtain k e where p: "p = (k, e)" by (cases p)
  have "(entry_fresh lib now m e \<and> \<not> entry_old lib now m e \<and> \<not> entry_untimed e) \<or>
        (\<not> entry_fresh lib now m e \<and> entry_old lib now m e \<and> \<not> entry_untimed e) \<or>
        (\<not> entry_fresh lib now m e \<and> \<not> entry_old lib now m e \<and> entry_untimed e)"
    by (auto simp: entry_fresh_def entry_old_def entry_untimed_def split: option.splits jval.splits)
  then show ?case using Cons.IH unfolding p by auto
qed

lemma get_by_class:
  assumes "timedelta_days (cache_max_age_days c) = Some max_age"
  shows "get lib now c lat lon =
     Return (case map_of (cache_data c) (generate_cache_key lib c lat lon) of
               None \<Rightarrow> None
             | Some e \<Rightarrow> if entry_fresh lib now max_age e then location_data e else None) c"
  using assms
  by (auto simp: get_def Let_def entry_fresh_def split: option.splits jval.splits)

lemma get_state [simp]: "state_of (get lib now c lat lon) = c"
  by (simp add: get_def Let_def split: option.splits jval.splits)

lemma get_stats_in_range:
  assumes "timedelta_days (cache_max_age_days c) = Some max_age"
  shows "get_stats lib now c =
     Return \<lparr>st_total = length (cache_data c),
             st_valid = length (filter (\<lambda>(k, e). entry_fresh lib now max_age e) (cache_data c)),
             st_expired = length (filter (\<lambda>(k, e). entry_old lib now max_age e) (cache_data c)),
             st_cache_file = cache_file c,
             st_max_age_days = cache_max_age_days c,
             st_precision = precision c,
             st_precision_name = level_name (get_precision_info c),
             st_precision_accuracy = level_accuracy (get_precision_info c)\<rparr> c"
  by (simp add: get_stats_def Let_def count_entries_filter [OF assms])

lemma clear_old_entries_in_range:
  assumes keys: "distinct (map fst (cache_data c))"
    and range: "timedelta_days (case d of None \<Rightarrow> cache_max_age_days c | Some x \<Rightarrow> x) = Some max_age"
  shows "clear_old_entries lib now c d =
     Return (length (filter (\<lambda>(k, e). entry_old lib now max_age e) (cache_data c)))
       (if filter (\<lambda>(k, e). entry_old lib now max_age e) (cache_data c) = []
        then c\<lparr>cache_data := filter (\<lambda>(k, e). \<not> entry_old lib now max_age e) (cache_data c)\<rparr>
        else save_cache
          (c\<lparr>cache_data := filter (\<lambda>(k, e). \<not> entry_old lib now max_age e) (cache_data c)\<rparr>))"
proof -
  let ?P = "\<lambda>(k, e). entry_old lib now max_age e"
  let ?keys = "map fst (filter ?P (cache_data c))"
  have k: "keys_to_delete lib now (case d of None \<Rightarrow> cache_max_age_days c | Some x \<Rightarrow> x)
             (cache_data c) = Some ?keys"
    by (rule keys_to_delete_filter [OF range])
  have d: "delete_keys ?keys (cache_data c) =
           filter (\<lambda>(k, e). \<not> entry_old lib now max_age e) (cache_data c)"
    unfolding delete_keys_filter set_map by (rule distinct_filter_keys [OF keys])
  show ?thesis
    by (simp add: clear_old_entries_def Let_def k d)
qed


text \<open>
  C5 at the equator: the latitudes \<open>-0.000001\<close> and \<open>0.000001\<close> round at precision 5
  to \<open>-0.0\<close> and \<open>0.0\<close>, two floats of the same value which are printed differently,
  so the two keys differ and a record stored for one latitude is not found for the other.
\<close>

theorem cache_key_differs_at_signed_zero:
  "float_value (py_round signed_lib (PyFloat True 10) (precision signed_cache)) =
     float_value (py_round signed_lib (PyFloat False 10) (precision signed_cache)) \<and>
   generate_cache_key signed_lib signed_cache (PyFloat True 10) (PyFloat False 22944800) =
     ''-0.0,2.29448'' \<and>
   generate_cache_key signed_lib signed_cache (PyFloat False 10) (PyFloat False 22944800) =
     ''0.0,2.29448'' \<and>
   get signed_lib 1700000060000000
     (set_entry signed_lib 1700000000000000 signed_cache (PyFloat True 10) (PyFloat False 22944800)
        [(''country'', ''Ecuador'')])
     (PyFloat False 10) (PyFloat False 22944800) =
   Return None
     (set_entry signed_lib 1700000000000000 signed_cache (PyFloat True 10) (PyFloat False 22944800)
        [(''country'', ''Ecuador'')])"
  by code_simp

lemma put_then_get_general:
  assumes roundtrip: "fromisoformat lib (isoformat lib t0) = Some t0"
    and nonempty: "isoformat lib t0 \<noteq> []"
    and range: "timedelta_days (cache_max_age_days c) = Some max_age"
    and soon: "t1 - t0 \<le> max_age"
  shows "get lib t1 (set_entry lib t0 c lat lon loc) lat lon =
           Return (Some loc) (set_entry lib t0 c lat lon loc)"
proof -
  let ?c' = "set_entry lib t0 c lat lon loc"
  have p: "precision ?c' = precision c" and m: "cache_max_age_days ?c' = cache_max_age_days c"
    by (simp_all add: set_entry_def save_cache_def Let_def)
  have k: "generate_cache_key lib ?c' lat lon = generate_cache_key lib c lat lon"
    by (simp add: generate_cache_key_def p)
  have d: "map_of (cache_data ?c') (generate_cache_key lib c lat lon) =
      Some \<lparr>timestamp = Some (JStr (isoformat lib t0)),
            coordinates = Some (py_round lib lat (precision c), py_round lib lon (precision c)),
            entry_precision = Some (precision c), location_data = Some loc\<rparr>"
    by (simp add: set_entry_def save_cache_def Let_def map_of_update_same)
  show ?thesis
    unfolding get_def k using d roundtrip nonempty range soon by (simp add: m)
qed

text \<open>
  The statement of C6 fails at a positive maximal age beyond the range of
  \<open>timedelta\<close>: \<open>get\<close> after \<open>set\<close> raises OverflowError.
\<close>

theorem put_then_get_counterexample:
  "0 < cache_max_age_days long_lived_cache \<and>
   get demo_lib 1700000060000000
     (set_entry demo_lib 1700000000000000 long_lived_cache 488583701 22944803 [(''city'', ''Paris'')])
     488583701 22944803 =
   Raise OverflowError
     (set_entry demo_lib 1700000000000000 long_lived_cache 488583701 22944803 [(''city'', ''Paris'')])"
  by code_simp

text \<open>
  C6, amended: \<open>set\<close> followed by \<open>get\<close> with the same coordinates, at most a day
  later, with the precision unchanged and a maximal age that is positive and at most
  999999999 days, returns the stored record and leaves the store as \<open>set\<close> left it.
  The library is assumed to read back the timestamp it wrote.
\<close>

theorem put_then_get:
  assumes roundtrip: "fromisoformat lib (isoformat lib t0) = Some t0"
    and nonempty: "isoformat lib t0 \<noteq> []"
    and age: "0 < cache_max_age_days c"
    and range: "cache_max_age_days c \<le> 999999999"
    and soon: "t1 - t0 \<le> 86400000000"
  shows "get lib t1 (set_entry lib t0 c lat lon loc) lat lon =
           Return (Some loc) (set_entry lib t0 c lat lon loc)"
proof -
  have r: "timedelta_days (cache_max_age_days c) = Some (cache_max_age_days c * 86400000000)"
    using age range by (simp add: timedelta_days_def)
  have "t1 - t0 \<le> cache_max_age_days c * 86400000000"
    using soon age by simp
  then show ?thesis by (rule put_then_get_general [OF roundtrip nonempty r])
qed

theorem put_then_get_witness:
  "get demo_lib 1700000060000000
     (set_entry demo_lib 1700000000000000 empty_cache 488583701 22944803 [(''city'', ''Paris'')])
     488583701 22944803 =
   Return (Some [(''city'', ''Paris'')])
     (set_entry demo_lib 1700000000000000 empty_cache 488583701 22944803 [(''city'', ''Paris'')])"
proof -
  have 1: "fromisoformat demo_lib (isoformat demo_lib 1700000000000000) = Some 1700000000000000"
    by code_simp
  have 2: "isoformat demo_lib 1700000000000000 \<noteq> []" by code_simp
  have 3: "0 < cache_max_age_days empty_cache" by (simp add: empty_cache_def)
  have 4: "cache_max_age_days empty_cache \<le> 999999999" by (simp add: empty_cache_def)
  have 5: "(1700000060000000::int) - 1700000000000000 \<le> 86400000000" by simp
  show ?thesis by (rule put_then_get [OF 1 2 3 4 5])
qed


lemma count_old_delete:
  assumes "distinct (map fst xs)" and "(k, e) \<in> set xs" and "P e"
  shows "length (filter (\<lambda>(k, e). P e) xs) =
         Suc (length (filter (\<lambda>(k, e). P e) (AList.delete k xs)))"
  using assms
proof (induction xs)
  case Nil
  then show ?case by simp
next
  case (Cons p xs)
  obtain k' e' where p: "p = (k', e')" by (cases p)
  show ?case
  proof (cases "k' = k")
    case True
    with Cons.prems p have "e' = e" by (auto simp: image_iff)
    moreover have "AList.delete k xs = xs"
      using Cons.prems p True by (auto simp: image_iff)
    ultimately show ?thesis using p True Cons.prems by (simp add: AList.delete_eq)
  next
    case False
    with Cons p show ?thesis by (auto simp: AList.delete_eq)
  qed
qed

text \<open>
  C9: an entry whose timestamp is older than the maximal age is not returned by
  \<open>get\<close> and is counted once as expired by \<open>get_stats\<close>; neither of the two changes
  the object, and only \<open>clear_old_entries\<close> removes the entry from the store. (That
  the entry is older than the maximal age includes that this age is a duration, that is,
  within the range of \<open>timedelta\<close>.)
\<close>

theorem expired_entry_stays_until_purged:
  assumes keys: "distinct (map fst (cache_data c))"
    and entry: "map_of (cache_data c) (generate_cache_key lib c lat lon) = Some e"
    and stamp: "timestamp e = Some (JStr s) \<and> s \<noteq> [] \<and> fromisoformat lib s = Some ts"
    and old: "timedelta_days (cache_max_age_days c) = Some max_age \<and> now - ts > max_age"
  shows "get lib now c lat lon = Return None c \<and>
         (case get_stats lib now c of
            Raise ex c1 \<Rightarrow> False
          | Return S c1 \<Rightarrow>
              c1 = c \<and>
              (case get_stats lib now
                      (c\<lparr>cache_data :=
                           AList.delete (generate_cache_key lib c lat lon) (cache_data c)\<rparr>) of
                 Raise ex c2 \<Rightarrow> False
               | Return S' c2 \<Rightarrow> st_expired S = Suc (st_expired S'))) \<and>
         (case clear_old_entries lib now c None of
            Raise ex c' \<Rightarrow> False
          | Return n c' \<Rightarrow>
              map_of (cache_data c') (generate_cache_key lib c lat lon) = None)"
proof -
  let ?k = "generate_cache_key lib c lat lon"
  let ?c2 = "c\<lparr>cache_data := AList.delete ?k (cache_data c)\<rparr>"
  from old have range: "timedelta_days (cache_max_age_days c) = Some max_age"
    and older: "now - ts > max_age" by simp_all
  have eo: "entry_old lib now max_age e"
    using stamp older by (simp add: entry_old_def)
  have g: "get lib now c lat lon = Return None c"
    using entry stamp range older by (simp add: get_def)
  have mem: "(?k, e) \<in> set (cache_data c)"
    using entry by (rule map_of_SomeD)
  have range2: "timedelta_days (cache_max_age_days ?c2) = Some max_age"
    using range by simp
  have x: "case get_stats lib now c of
            Raise ex c1 \<Rightarrow> False
          | Return S c1 \<Rightarrow>
              c1 = c \<and>
              (case get_stats lib now ?c2 of
                 Raise ex c2 \<Rightarrow> False
               | Return S' c2 \<Rightarrow> st_expired S = Suc (st_expired S'))"
    unfolding get_stats_in_range [OF range] get_stats_in_range [OF range2]
    using count_old_delete [OF keys mem, of "entry_old lib now max_age", OF eo]
    by simp
  have range3: "timedelta_days (case None of None \<Rightarrow> cache_max_age_days c | Some x \<Rightarrow> x) = Some max_age"
    using range by simp
  have p: "case clear_old_entries lib now c None of
            Raise ex c' \<Rightarrow> False
          | Return n c' \<Rightarrow> map_of (cache_data c') ?k = None"
    unfolding clear_old_entries_in_range [OF keys range3]
    using keys mem eo
    by (auto simp: save_cache_def map_of_eq_None_iff image_iff dest: eq_key_imp_eq_value)
  from g x p show ?thesis by blast
qed

lemma one_entry_key:
  "generate_cache_key demo_lib one_entry_cache 488583701 22944803 = ''488583700,22944800''"
  by code_simp

theorem expired_entry_stays_until_purged_witness:
  "get demo_lib 1702678400000000 one_entry_cache 488583701 22944803 = Return None one_entry_cache \<and>
   (case get_stats demo_lib 1702678400000000 one_entry_cache of
      Raise ex c1 \<Rightarrow> False
    | Return S c1 \<Rightarrow>
        c1 = one_entry_cache \<and>
        (case get_stats demo_lib 1702678400000000
                (one_entry_cache\<lparr>cache_data :=
                   AList.delete (generate_cache_key demo_lib one_entry_cache 488583701 22944803)
                     (cache_data one_entry_cache)\<rparr>) of
           Raise ex c2 \<Rightarrow> False
         | Return S' c2 \<Rightarrow> st_expired S = Suc (st_expired S'))) \<and>
   (case clear_old_entries demo_lib 1702678400000000 one_entry_cache None of
      Raise ex c' \<Rightarrow> False
    | Return n c' \<Rightarrow>
        map_of (cache_data c')
          (generate_cache_key demo_lib one_entry_cache 488583701 22944803) = None)"
proof -
  have 1: "distinct (map fst (cache_data one_entry_cache))"
    by (simp add: one_entry_cache_def)
  have 2: "map_of (cache_data one_entry_cache)
             (generate_cache_key demo_lib one_entry_cache 488583701 22944803) = Some old_entry"
    unfolding one_entry_key by (simp add: one_entry_cache_def)
  have 3: "timestamp old_entry = Some (JStr ''1700000000000000'') \<and> ''1700000000000000'' \<noteq> [] \<and>
           fromisoformat demo_lib ''1700000000000000'' = Some 1700000000000000"
    by code_simp
  have 4: "timedelta_days (cache_max_age_days one_entry_cache) = Some 2592000000000 \<and>
           1702678400000000 - 1700000000000000 > (2592000000000::int)"
    by (simp add: timedelta_days_def one_entry_cache_def empty_cache_def)
  show ?thesis by (rule expired_entry_stays_until_purged [OF 1 2 3 4])
qed





text \<open>
  The statement of C2 fails at the same store: \<open>get_stats\<close> counts the entry in the
  total and in neither class, so the total is not the sum of the two classes.
\<close>

theorem get_stats_counterexample:
  "(case get_stats demo_lib 1702678400000000 bare_cache of
      Raise ex c \<Rightarrow> False
    | Return S c \<Rightarrow> st_total S = 1 \<and> st_valid S = 0 \<and> st_expired S = 0)"
  by (simp add: get_stats_def Let_def bare_cache_def empty_cache_def)

text \<open>
  C2, amended: for every store whose maximal age is at most 999999999 days in
  magnitude, \<open>get_stats\<close> leaves the object as it is and counts as valid exactly the
  entries with a truthy timestamp that parses and is not older than the maximal age, and
  as expired exactly those with a truthy timestamp that does not parse or is older; an
  entry whose timestamp is missing or falsy is in neither class, so the total is the sum
  of the two classes and of the number of such entries. The rule for valid is the rule of
  \<open>get\<close>, which returns the record of the entry under the key iff that entry is valid.
\<close>

theorem get_stats_classifies_timed_entries:
  assumes range: "timedelta_days (cache_max_age_days c) = Some max_age"
  shows "(case get_stats lib now c of
            Raise ex c' \<Rightarrow> False
          | Return S c' \<Rightarrow>
              c' = c \<and>
              st_valid S =
                length (filter (\<lambda>(k, e). entry_fresh lib now max_age e) (cache_data c)) \<and>
              st_expired S =
                length (filter (\<lambda>(k, e). entry_old lib now max_age e) (cache_data c)) \<and>
              st_total S =
                st_valid S + st_expired S +
                length (filter (\<lambda>(k, e). entry_untimed e) (cache_data c))) \<and>
         get lib now c lat lon =
           Return (case map_of (cache_data c) (generate_cache_key lib c lat lon) of
                     None \<Rightarrow> None
                   | Some e \<Rightarrow> if entry_fresh lib now max_age e then location_data e else None) c"
  unfolding get_stats_in_range [OF range]
  using entry_classes [of "cache_data c" lib now max_age] get_by_class [OF range, of lib now lat lon]
  by simp

theorem get_stats_classifies_timed_entries_witness:
  "(case get_stats demo_lib 1702678400000000 three_entry_cache of
      Raise ex c' \<Rightarrow> False
    | Return S c' \<Rightarrow> st_valid S = 1 \<and> st_expired S = 1 \<and> st_total S = 3) \<and>
   get demo_lib 1702678400000000 three_entry_cache 488583701 22944803 =
     Return None three_entry_cache"
proof -
  have rc: "timedelta_days (cache_max_age_days three_entry_cache) = Some 2592000000000"
    by (simp add: timedelta_days_def three_entry_cache_def empty_cache_def)
  have f: "length (filter (\<lambda>(k, e). entry_fresh demo_lib 1702678400000000 2592000000000 e)
             (cache_data three_entry_cache)) = 1"
    by code_simp
  have o: "length (filter (\<lambda>(k, e). entry_old demo_lib 1702678400000000 2592000000000 e)
             (cache_data three_entry_cache)) = 1"
    by code_simp
  have u: "length (filter (\<lambda>(k, e). entry_untimed e) (cache_data three_entry_cache)) = 1"
    by code_simp
  have g: "(case map_of (cache_data three_entry_cache)
               (generate_cache_key demo_lib three_entry_cache 488583701 22944803) of
        None \<Rightarrow> None
      | Some e \<Rightarrow> if entry_fresh demo_lib 1702678400000000 2592000000000 e
                  then location_data e else None) = None"
    by code_simp
  note t = get_stats_classifies_timed_entries [OF rc, of demo_lib 1702678400000000
      488583701 22944803, unfolded f o u g]
  then show ?thesis by (auto split: outcome.splits)
qed

section \<open>Properties of the worker\<close>

lemma compare_location_data_completed:
  assumes "subprocess_run w (length (calls st))
             [exiftool_path st, ''-IPTC:City'', ''-IPTC:Province-State'',
              ''-IPTC:Country-PrimaryLocationName'', ''-s3'', image_path] = Completed rc out"
  shows "fst (compare_location_data w st image_path new_location) =
           (\<not> (line_or_empty (split_on CHR 0x0A (strip out)) 0 = dict_get new_location ''city'' [] \<and>
               line_or_empty (split_on CHR 0x0A (strip out)) 1 = dict_get new_location ''state'' [] \<and>
               line_or_empty (split_on CHR 0x0A (strip out)) 2 = dict_get new_location ''country'' []))"
  using assms by (simp add: compare_location_data_def Let_def)

lemma compare_location_data_raised:
  assumes "subprocess_run w (length (calls st))
             [exiftool_path st, ''-IPTC:City'', ''-IPTC:Province-State'',
              ''-IPTC:Country-PrimaryLocationName'', ''-s3'', image_path] \<in>
           {TimeoutExpired, FileNotFoundError, OtherException}"
  shows "fst (compare_location_data w st image_path new_location) = True"
  using assms by (auto simp: compare_location_data_def Let_def)

text \<open>
  C3 at a tool that exits with status 1 and prints nothing, for a candidate whose city,
  state and country are empty: \<open>compare_location_data\<close> returns \<open>False\<close> (no
  write), since the return code is not read.
\<close>

theorem compare_location_data_ignores_returncode:
  "fst (compare_location_data (w\<lparr>subprocess_run := \<lambda>n argv. Completed 1 []\<rparr>) st image_path
          [(''name'', ''Nordsee''), (''city'', []), (''state'', []), (''country'', [])]) = False"
  by (simp add: compare_location_data_def Let_def strip_def split_on_def line_or_empty_def dict_get_def)

lemma stats_log [simp]: "stats (log l st) = stats st"
  by (simp add: log_def emit_def)

lemma stats_emit [simp]: "stats (emit s st) = stats st"
  by (simp add: emit_def)

lemma stats_record_call [simp]: "stats (record_call c st) = stats st"
  by (simp add: record_call_def)

lemma calls_log [simp]: "calls (log l st) = calls st"
  by (simp add: log_def emit_def)

lemma calls_emit [simp]: "calls (emit s st) = calls st"
  by (simp add: emit_def)

lemma calls_record_call [simp]: "calls (record_call c st) = calls st @ [c]"
  by (simp add: record_call_def)

lemma signals_log [simp]: "signals (log l st) = signals st @ [Log l]"
  by (simp add: log_def emit_def)

lemma signals_emit [simp]: "signals (emit s st) = signals st @ [s]"
  by (simp add: emit_def)

lemma signals_record_call [simp]: "signals (record_call c st) = signals st"
  by (simp add: record_call_def)

lemma cache_log [simp]: "cache (log l st) = cache st"
  by (simp add: log_def emit_def)

lemma cache_record_call [simp]: "cache (record_call c st) = cache st"
  by (simp add: record_call_def)

lemma skip_existing_log [simp]: "skip_existing (log l st) = skip_existing st"
  by (simp add: log_def emit_def)

lemma exiftool_path_log [simp]: "exiftool_path (log l st) = exiftool_path st"
  by (simp add: log_def emit_def)

lemma check_existing_stats [simp]:
  "stats (snd (check_existing_location_data w st p)) = stats st"
  by (simp add: check_existing_location_data_def Let_def split: proc_result.splits)

lemma choose_file_stats:
  "choose_file_to_read w st p = Return f st' \<Longrightarrow> stats st' = stats st"
  by (auto simp: choose_file_to_read_def Let_def split: if_splits option.splits)

lemma get_gps_data_stats:
  "get_gps_data lib w st p = Return r st' \<Longrightarrow> stats st' = stats st"
  by (auto simp: get_gps_data_def Let_def dest!: choose_file_stats
      split: outcome.splits proc_result.splits if_splits prod.splits option.splits)


lemma reverse_geocode_hit:
  assumes "get lib (datetime_now w (length (calls st))) (cache st) lat lon = Return r c1"
    and "truthy_location r"
  shows "reverse_geocode lib w st lat lon = Return r (bump_cache_hits (log LCacheHit st))"
proof -
  have "c1 = cache st"
    using get_state [of lib "datetime_now w (length (calls st))" "cache st" lat lon]
    unfolding assms(1) by simp
  then show ?thesis using assms by (simp add: reverse_geocode_def Let_def)
qed

lemma reverse_geocode_miss:
  assumes "get lib (datetime_now w (length (calls st))) (cache st) lat lon = Return r c1"
    and "\<not> truthy_location r"
  shows "returns (reverse_geocode lib w st lat lon) \<and>
         api_calls (stats (state_of (reverse_geocode lib w st lat lon))) = api_calls (stats st) + 1 \<and>
         cache_hits (stats (state_of (reverse_geocode lib w st lat lon))) = cache_hits (stats st) \<and>
         calls (state_of (reverse_geocode lib w st lat lon)) = calls st @ [HttpGet lat lon]"
  using assms
  by (simp add: reverse_geocode_def Let_def bump_api_calls_def
      split: http_response.splits option.splits list.splits)

lemma reverse_geocode_stores:
  assumes "get lib (datetime_now w (length (calls st))) (cache st) lat lon = Return r c1"
    and "\<not> truthy_location r"
    and "requests_get w (length (calls st)) lat lon = HttpJson (Some (Some props # others))"
  shows "reverse_geocode lib w st lat lon =
           Return (Some (location_of_props props))
             ((record_call (HttpGet lat lon) (bump_api_calls (log LApiQuery st)))
                \<lparr>cache := set_entry lib (datetime_now w (Suc (length (calls st)))) (cache st) lat lon
                             (location_of_props props)\<rparr>)"
proof -
  have "c1 = cache st"
    using get_state [of lib "datetime_now w (length (calls st))" "cache st" lat lon]
    unfolding assms(1) by simp
  then show ?thesis
    using assms by (simp add: reverse_geocode_def Let_def bump_api_calls_def)
qed

lemma reverse_geocode_never_empty:
  "reverse_geocode lib w st lat lon = Return r s \<Longrightarrow> r \<noteq> Some []"
  by (auto simp: reverse_geocode_def Let_def location_of_props_def
      split: outcome.splits if_splits http_response.splits option.splits list.splits)

lemma tagged_probe:
  "subprocess_run demo_world (length (calls demo_worker))
      [exiftool_path demo_worker, ''-IPTC:City'', ''-XMP:City'', ''-s3'', ''/photos/tagged.jpg'']
    = Completed 0 (''Paris'' @ [CHR 0x0A])"
  by code_simp

lemma tagged_strip: "strip (''Paris'' @ [CHR 0x0A]) \<noteq> []"
  by code_simp

lemma sea_no_tag:
  "\<not> (skip_existing demo_worker \<and>
        fst (check_existing_location_data demo_world
              (log (LImage (path_name ''/photos/sea.jpg'')) demo_worker) ''/photos/sea.jpg''))"
  by code_simp


text \<open>
  C4: when \<open>get\<close> returns a non-empty record, \<open>reverse_geocode\<close> returns it,
  adds one to \<open>cache_hits\<close> and issues no request; when \<open>get\<close> returns no record or
  an empty one, it adds one to \<open>api_calls\<close> and issues exactly one request. Scenario
  A: from an empty cache with precision 5 and a maximal age of 30 days, and a service that
  answers with a feature, the first call issues one request and stores one entry under
  the key of the rounded coordinates; a second call a minute later, after any other
  interactions, is a cache hit and issues no request.
\<close>

theorem reverse_geocode_hit_miss:
  "(get lib (datetime_now w (length (calls st))) (cache st) lat lon = Return r c1 \<and>
    truthy_location r \<longrightarrow>
      reverse_geocode lib w st lat lon = Return r (bump_cache_hits (log LCacheHit st)) \<and>
      cache_hits (stats (state_of (reverse_geocode lib w st lat lon))) = cache_hits (stats st) + 1 \<and>
      api_calls (stats (state_of (reverse_geocode lib w st lat lon))) = api_calls (stats st) \<and>
      calls (state_of (reverse_geocode lib w st lat lon)) = calls st) \<and>
   (get lib (datetime_now w (length (calls st))) (cache st) lat lon = Return r c1 \<and>
    \<not> truthy_location r \<longrightarrow>
      returns (reverse_geocode lib w st lat lon) \<and>
      api_calls (stats (state_of (reverse_geocode lib w st lat lon))) = api_calls (stats st) + 1 \<and>
      cache_hits (stats (state_of (reverse_geocode lib w st lat lon))) = cache_hits (stats st) \<and>
      calls (state_of (reverse_geocode lib w st lat lon)) = calls st @ [HttpGet lat lon]) \<and>
   (cache_data (cache st) = [] \<and> precision (cache st) = 5 \<and> cache_max_age_days (cache st) = 30 \<and>
    requests_get w (length (calls st)) lat lon = HttpJson (Some (Some props # others)) \<and>
    fromisoformat lib (isoformat lib (datetime_now w (Suc (length (calls st))))) =
      Some (datetime_now w (Suc (length (calls st)))) \<and>
    isoformat lib (datetime_now w (Suc (length (calls st)))) \<noteq> [] \<and>
    datetime_now w (Suc (length (calls st)) + length later) =
      datetime_now w (Suc (length (calls st))) + 60000000 \<longrightarrow>
      (let st1 = state_of (reverse_geocode lib w st lat lon);
           st2 = st1\<lparr>calls := calls st1 @ later\<rparr>
       in returns (reverse_geocode lib w st lat lon) \<and>
          calls st1 = calls st @ [HttpGet lat lon] \<and>
          cache_data (cache st1) =
            [(generate_cache_key lib (cache st) lat lon,
              \<lparr>timestamp = Some (JStr (isoformat lib (datetime_now w (Suc (length (calls st)))))),
               coordinates = Some (py_round lib lat 5, py_round lib lon 5),
               entry_precision = Some 5,
               location_data = Some (location_of_props props)\<rparr>)] \<and>
          reverse_geocode lib w st2 lat lon =
            Return (Some (location_of_props props)) (bump_cache_hits (log LCacheHit st2)) \<and>
          cache_hits (stats (state_of (reverse_geocode lib w st2 lat lon))) =
            cache_hits (stats st2) + 1 \<and>
          calls (state_of (reverse_geocode lib w st2 lat lon)) = calls st2))"
proof (intro conjI impI)
  assume h: "get lib (datetime_now w (length (calls st))) (cache st) lat lon = Return r c1 \<and>
    truthy_location r"
  have e: "reverse_geocode lib w st lat lon = Return r (bump_cache_hits (log LCacheHit st))"
    by (rule reverse_geocode_hit [OF h [THEN conjunct1] h [THEN conjunct2]])
  show "reverse_geocode lib w st lat lon = Return r (bump_cache_hits (log LCacheHit st))"
    by (rule e)
  show "cache_hits (stats (state_of (reverse_geocode lib w st lat lon))) = cache_hits (stats st) + 1"
    and "api_calls (stats (state_of (reverse_geocode lib w st lat lon))) = api_calls (stats st)"
    and "calls (state_of (reverse_geocode lib w st lat lon)) = calls st"
    unfolding e by (simp_all add: bump_cache_hits_def)
next
  assume m: "get lib (datetime_now w (length (calls st))) (cache st) lat lon = Return r c1 \<and>
    \<not> truthy_location r"
  have "returns (reverse_geocode lib w st lat lon) \<and>
         api_calls (stats (state_of (reverse_geocode lib w st lat lon))) = api_calls (stats st) + 1 \<and>
         cache_hits (stats (state_of (reverse_geocode lib w st lat lon))) = cache_hits (stats st) \<and>
         calls (state_of (reverse_geocode lib w st lat lon)) = calls st @ [HttpGet lat lon]"
    by (rule reverse_geocode_miss [OF m [THEN conjunct1] m [THEN conjunct2]])
  then show "returns (reverse_geocode lib w st lat lon)"
    and "api_calls (stats (state_of (reverse_geocode lib w st lat lon))) = api_calls (stats st) + 1"
    and "cache_hits (stats (state_of (reverse_geocode lib w st lat lon))) = cache_hits (stats st)"
    and "calls (state_of (reverse_geocode lib w st lat lon)) = calls st @ [HttpGet lat lon]"
    by simp_all
next
  let ?t = "datetime_now w (Suc (length (calls st)))"
  let ?loc = "location_of_props props"
  assume s: "cache_data (cache st) = [] \<and> precision (cache st) = 5 \<and> cache_max_age_days (cache st) = 30 \<and>
    requests_get w (length (calls st)) lat lon = HttpJson (Some (Some props # others)) \<and>
    fromisoformat lib (isoformat lib ?t) = Some ?t \<and>
    isoformat lib ?t \<noteq> [] \<and>
    datetime_now w (Suc (length (calls st)) + length later) = ?t + 60000000"
  have miss: "get lib (datetime_now w (length (calls st))) (cache st) lat lon = Return None (cache st)"
    using s by (simp add: get_def)
  define st1 where "st1 = state_of (reverse_geocode lib w st lat lon)"
  define st2 where "st2 = st1\<lparr>calls := calls st1 @ later\<rparr>"
  have first: "reverse_geocode lib w st lat lon =
      Return (Some ?loc)
        ((record_call (HttpGet lat lon) (bump_api_calls (log LApiQuery st)))
           \<lparr>cache := set_entry lib ?t (cache st) lat lon ?loc\<rparr>)"
    using s by (intro reverse_geocode_stores [OF miss]) simp_all
  have ret: "returns (reverse_geocode lib w st lat lon)"
    unfolding first by simp
  have st1: "st1 = (record_call (HttpGet lat lon) (bump_api_calls (log LApiQuery st)))
              \<lparr>cache := set_entry lib ?t (cache st) lat lon ?loc\<rparr>"
    unfolding st1_def first by simp
  have c1: "calls st1 = calls st @ [HttpGet lat lon]"
    unfolding st1 by (simp add: bump_api_calls_def)
  have d1: "cache_data (cache st1) =
            [(generate_cache_key lib (cache st) lat lon,
              \<lparr>timestamp = Some (JStr (isoformat lib ?t)),
               coordinates = Some (py_round lib lat 5, py_round lib lon 5),
               entry_precision = Some 5,
               location_data = Some ?loc\<rparr>)]"
    unfolding st1 using s by (simp add: set_entry_def save_cache_def Let_def)
  have cache2: "cache st2 = set_entry lib ?t (cache st) lat lon ?loc"
    unfolding st2_def st1 by simp
  have len2: "length (calls st2) = Suc (length (calls st)) + length later"
    unfolding st2_def using c1 by simp
  have ne: "truthy_location (Some ?loc)" by (simp add: location_of_props_def)
  have range: "timedelta_days (cache_max_age_days (cache st)) = Some 2592000000000"
    using s by (simp add: timedelta_days_def)
  have soon: "datetime_now w (length (calls st2)) - ?t \<le> 2592000000000"
    unfolding len2 using s by simp
  have g2: "get lib (datetime_now w (length (calls st2))) (cache st2) lat lon =
      Return (Some ?loc) (cache st2)"
    unfolding cache2
    using s by (intro put_then_get_general [OF _ _ range soon]) simp_all
  have r2: "reverse_geocode lib w st2 lat lon =
      Return (Some ?loc) (bump_cache_hits (log LCacheHit st2))"
    by (rule reverse_geocode_hit [OF g2 ne])
  have r2': "cache_hits (stats (state_of (reverse_geocode lib w st2 lat lon))) =
               cache_hits (stats st2) + 1"
    "calls (state_of (reverse_geocode lib w st2 lat lon)) = calls st2"
    unfolding r2 by (simp_all add: bump_cache_hits_def)
  show "let st1 = state_of (reverse_geocode lib w st lat lon);
           st2 = st1\<lparr>calls := calls st1 @ later\<rparr>
       in returns (reverse_geocode lib w st lat lon) \<and>
          calls st1 = calls st @ [HttpGet lat lon] \<and>
          cache_data (cache st1) =
            [(generate_cache_key lib (cache st) lat lon,
              \<lparr>timestamp = Some (JStr (isoformat lib ?t)),
               coordinates = Some (py_round lib lat 5, py_round lib lon 5),
               entry_precision = Some 5,
               location_data = Some ?loc\<rparr>)] \<and>
          reverse_geocode lib w st2 lat lon =
            Return (Some ?loc) (bump_cache_hits (log LCacheHit st2)) \<and>
          cache_hits (stats (state_of (reverse_geocode lib w st2 lat lon))) =
            cache_hits (stats st2) + 1 \<and>
          calls (state_of (reverse_geocode lib w st2 lat lon)) = calls st2"
    unfolding Let_def st1_def [symmetric] st2_def [symmetric]
    using ret c1 d1 r2 r2' by blast
qed

theorem reverse_geocode_hit_miss_witness:
  "(let st1 = state_of (reverse_geocode demo_lib demo_world demo_worker 488583701 22944803);
        st2 = st1\<lparr>calls := calls st1 @ [Walk ''/photos'']\<rparr>
    in calls st1 = [HttpGet 488583701 22944803] \<and>
       api_calls (stats st1) = 1 \<and>
       reverse_geocode demo_lib demo_world st2 488583701 22944803 =
         Return (Some (location_of_props [(''city'', ''Paris''), (''country'', ''Frankreich'')]))
           (bump_cache_hits (log LCacheHit st2)) \<and>
       cache_hits (stats (state_of (reverse_geocode demo_lib demo_world st2 488583701 22944803))) = 1 \<and>
       calls (state_of (reverse_geocode demo_lib demo_world st2 488583701 22944803)) =
         [HttpGet 488583701 22944803, Walk ''/photos''])"
proof -
  define st1 where "st1 = state_of (reverse_geocode demo_lib demo_world demo_worker 488583701 22944803)"
  define st2 where "st2 = st1\<lparr>calls := calls st1 @ [Walk ''/photos'']\<rparr>"
  have z: "calls demo_worker = []" "stats demo_worker = zero_stats"
    by (simp_all add: demo_worker_def)
  have miss: "get demo_lib (datetime_now demo_world (length (calls demo_worker)))
      (cache demo_worker) 488583701 22944803 = Return None (cache demo_worker) \<and>
      \<not> truthy_location None"
    by (simp add: get_def demo_worker_def empty_cache_def)
  have scen: "cache_data (cache demo_worker) = [] \<and> precision (cache demo_worker) = 5 \<and>
    cache_max_age_days (cache demo_worker) = 30 \<and>
    requests_get demo_world (length (calls demo_worker)) 488583701 22944803 =
      HttpJson (Some (Some [(''city'', ''Paris''), (''country'', ''Frankreich'')] # [])) \<and>
    fromisoformat demo_lib (isoformat demo_lib (datetime_now demo_world (Suc (length (calls demo_worker))))) =
      Some (datetime_now demo_world (Suc (length (calls demo_worker)))) \<and>
    isoformat demo_lib (datetime_now demo_world (Suc (length (calls demo_worker)))) \<noteq> [] \<and>
    datetime_now demo_world (Suc (length (calls demo_worker)) + length [Walk ''/photos'' :: int ext_call]) =
      datetime_now demo_world (Suc (length (calls demo_worker))) + 60000000"
    by code_simp
  note t = reverse_geocode_hit_miss [of demo_lib demo_world demo_worker 488583701 22944803
      None "cache demo_worker"
      "[(''city'', ''Paris''), (''country'', ''Frankreich'')]" "[]" "[Walk ''/photos'']"]
  note tm = t [THEN conjunct2, THEN conjunct1, THEN mp, OF miss]
  note ts = t [THEN conjunct2, THEN conjunct2, THEN mp, OF scen, unfolded Let_def,
      folded st1_def, folded st2_def]
  have a: "api_calls (stats st1) = 1" "cache_hits (stats st1) = 0"
    using tm unfolding st1_def by (simp_all add: z zero_stats_def)
  have c1: "calls st1 = [HttpGet 488583701 22944803]"
    using ts by (simp add: z)
  have c: "cache_hits (stats st2) = 0" "calls st2 = [HttpGet 488583701 22944803, Walk ''/photos'']"
    unfolding st2_def using a c1 by simp_all
  have b: "reverse_geocode demo_lib demo_world st2 488583701 22944803 =
         Return (Some (location_of_props [(''city'', ''Paris''), (''country'', ''Frankreich'')]))
           (bump_cache_hits (log LCacheHit st2))"
    "cache_hits (stats (state_of (reverse_geocode demo_lib demo_world st2 488583701 22944803))) =
       cache_hits (stats st2) + 1"
    "calls (state_of (reverse_geocode demo_lib demo_world st2 488583701 22944803)) = calls st2"
    using ts by blast+
  show ?thesis
    unfolding Let_def st1_def [symmetric] st2_def [symmetric]
    using a c1 b c by simp
qed

text \<open>
  C7: with skip-existing on and a probe that prints non-empty text, \<open>process_image\<close>
  logs the skip, adds one to \<open>skipped_already_tagged\<close> and its only interaction with
  the world is the probe (no GPS read). When the file is not skipped and
  \<open>get_gps_data\<close> returns \<open>None\<close>, it adds one to \<open>skipped_no_gps\<close> and leaves
  \<open>total_processed\<close> as it was.
\<close>

theorem process_image_skips:
  "(skip_existing st \<and>
    subprocess_run w (length (calls st))
      [exiftool_path st, ''-IPTC:City'', ''-XMP:City'', ''-s3'', image_path] = Completed rc out \<and>
    strip out \<noteq> [] \<longrightarrow>
      (let st' = bump_skipped_already_tagged (log LAlreadyTagged
          (record_call (Run [exiftool_path st, ''-IPTC:City'', ''-XMP:City'', ''-s3'', image_path])
            (log (LImage (path_name image_path)) st)))
       in process_image lib w st image_path = Return () st' \<and>
          skipped_already_tagged (stats st') = skipped_already_tagged (stats st) + 1 \<and>
          signals st' = signals st @ [Log (LImage (path_name image_path)), Log LAlreadyTagged] \<and>
          calls st' =
            calls st @ [Run [exiftool_path st, ''-IPTC:City'', ''-XMP:City'', ''-s3'', image_path]])) \<and>
   (\<not> (skip_existing st \<and>
        fst (check_existing_location_data w (log (LImage (path_name image_path)) st) image_path)) \<and>
    get_gps_data lib w
      (if skip_existing st
       then snd (check_existing_location_data w (log (LImage (path_name image_path)) st) image_path)
       else log (LImage (path_name image_path)) st) image_path = Return None st3 \<longrightarrow>
      process_image lib w st image_path = Return () (bump_skipped_no_gps (log LNoGps st3)) \<and>
      skipped_no_gps (stats (bump_skipped_no_gps (log LNoGps st3))) = skipped_no_gps (stats st) + 1 \<and>
      total_processed (stats (bump_skipped_no_gps (log LNoGps st3))) = total_processed (stats st))"
proof (intro conjI impI)
  assume a: "skip_existing st \<and>
    subprocess_run w (length (calls st))
      [exiftool_path st, ''-IPTC:City'', ''-XMP:City'', ''-s3'', image_path] = Completed rc out \<and>
    strip out \<noteq> []"
  then have "process_image lib w st image_path =
        Return () (bump_skipped_already_tagged (log LAlreadyTagged
          (record_call (Run [exiftool_path st, ''-IPTC:City'', ''-XMP:City'', ''-s3'', image_path])
            (log (LImage (path_name image_path)) st))))"
    by (simp add: process_image_def check_existing_location_data_def Let_def)
  then show "let st' = bump_skipped_already_tagged (log LAlreadyTagged
          (record_call (Run [exiftool_path st, ''-IPTC:City'', ''-XMP:City'', ''-s3'', image_path])
            (log (LImage (path_name image_path)) st)))
       in process_image lib w st image_path = Return () st' \<and>
          skipped_already_tagged (stats st') = skipped_already_tagged (stats st) + 1 \<and>
          signals st' = signals st @ [Log (LImage (path_name image_path)), Log LAlreadyTagged] \<and>
          calls st' =
            calls st @ [Run [exiftool_path st, ''-IPTC:City'', ''-XMP:City'', ''-s3'', image_path]]"
    by (simp add: bump_skipped_already_tagged_def Let_def)
next
  assume b: "\<not> (skip_existing st \<and>
        fst (check_existing_location_data w (log (LImage (path_name image_path)) st) image_path)) \<and>
    get_gps_data lib w
      (if skip_existing st
       then snd (check_existing_location_data w (log (LImage (path_name image_path)) st) image_path)
       else log (LImage (path_name image_path)) st) image_path = Return None st3"
  then show "process_image lib w st image_path = Return () (bump_skipped_no_gps (log LNoGps st3))"
    by (cases "skip_existing st") (auto simp: process_image_def Let_def split: prod.splits)
  from b have "stats st3 = stats st"
    by (cases "skip_existing st") (auto dest!: get_gps_data_stats)
  then show "skipped_no_gps (stats (bump_skipped_no_gps (log LNoGps st3))) = skipped_no_gps (stats st) + 1"
    and "total_processed (stats (bump_skipped_no_gps (log LNoGps st3))) = total_processed (stats st)"
    by (simp_all add: bump_skipped_no_gps_def)
qed

lemma sea_no_gps:
  "get_gps_data demo_lib demo_world
      (if skip_existing demo_worker
       then snd (check_existing_location_data demo_world
                   (log (LImage (path_name ''/photos/sea.jpg'')) demo_worker) ''/photos/sea.jpg'')
       else log (LImage (path_name ''/photos/sea.jpg'')) demo_worker) ''/photos/sea.jpg''
   = Return None
      (record_call (Run [''exiftool'', ''-GPSLatitude'', ''-GPSLongitude'', ''-n'', ''/photos/sea.jpg''])
        (record_call (Exists ''/photos/sea.jpg.xmp'')
          (record_call (Run [''exiftool'', ''-IPTC:City'', ''-XMP:City'', ''-s3'', ''/photos/sea.jpg''])
            (log (LImage ''sea.jpg'') demo_worker))))"
  by code_simp

theorem process_image_skips_witness:
  "(case process_image demo_lib demo_world demo_worker ''/photos/tagged.jpg'' of
      Return u st' \<Rightarrow>
        skipped_already_tagged (stats st') = 1 \<and>
        calls st' = [Run [''exiftool'', ''-IPTC:City'', ''-XMP:City'', ''-s3'', ''/photos/tagged.jpg'']]
    | Raise e st' \<Rightarrow> False) \<and>
   (case process_image demo_lib demo_world demo_worker ''/photos/sea.jpg'' of
      Return u st' \<Rightarrow> skipped_no_gps (stats st') = 1 \<and> total_processed (stats st') = 0
    | Raise e st' \<Rightarrow> False)"
proof -
  have a: "skip_existing demo_worker \<and>
    subprocess_run demo_world (length (calls demo_worker))
      [exiftool_path demo_worker, ''-IPTC:City'', ''-XMP:City'', ''-s3'', ''/photos/tagged.jpg'']
      = Completed 0 (''Paris'' @ [CHR 0x0A]) \<and>
    strip (''Paris'' @ [CHR 0x0A]) \<noteq> []"
    using tagged_probe tagged_strip by (simp add: demo_worker_def)
  have z: "stats demo_worker = zero_stats" "calls demo_worker = []"
    "exiftool_path demo_worker = ''exiftool''"
    by (simp_all add: demo_worker_def)
  have 1: "case process_image demo_lib demo_world demo_worker ''/photos/tagged.jpg'' of
      Return u st' \<Rightarrow>
        skipped_already_tagged (stats st') = 1 \<and>
        calls st' = [Run [''exiftool'', ''-IPTC:City'', ''-XMP:City'', ''-s3'', ''/photos/tagged.jpg'']]
    | Raise e st' \<Rightarrow> False"
    using process_image_skips [of demo_worker demo_world "''/photos/tagged.jpg''" 0
        "''Paris'' @ [CHR 0x0A]" demo_lib] a
    by (simp add: Let_def z zero_stats_def)
  have 2: "case process_image demo_lib demo_world demo_worker ''/photos/sea.jpg'' of
      Return u st' \<Rightarrow> skipped_no_gps (stats st') = 1 \<and> total_processed (stats st') = 0
    | Raise e st' \<Rightarrow> False"
    using process_image_skips [of demo_worker demo_world "''/photos/sea.jpg''" _ _ demo_lib, THEN conjunct2]
      sea_no_tag sea_no_gps
    by (simp add: z zero_stats_def)
  from 1 2 show ?thesis by simp
qed

lemma reverse_geocode_total_processed:
  "total_processed (stats (state_of (reverse_geocode lib w st lat lon))) = total_processed (stats st)"
  by (cases "get lib (datetime_now w (length (calls st))) (cache st) lat lon")
     (simp_all add: reverse_geocode_def Let_def bump_api_calls_def bump_cache_hits_def
        split: http_response.splits option.splits list.splits)

text \<open>
  The statement of C10 fails when the maximal age is beyond the range of
  \<open>timedelta\<close>: with a maximal age of 1000000000 days and an entry written a moment
  ago whose record is empty, \<open>get\<close> raises \<open>OverflowError\<close> before the truthiness
  test, \<open>reverse_geocode\<close> raises it as well, and neither an API call is counted nor a
  request issued.
\<close>

theorem empty_cached_record_counterexample:
  "map_of (cache_data (cache long_lived_worker))
     (generate_cache_key demo_lib (cache long_lived_worker) 488583701 22944803) =
     Some (old_entry\<lparr>location_data := Some []\<rparr>) \<and>
   datetime_now demo_world (length (calls long_lived_worker)) - 1700000000000000 = 0 \<and>
   reverse_geocode demo_lib demo_world long_lived_worker 488583701 22944803 =
     Raise OverflowError long_lived_worker \<and>
   api_calls (stats long_lived_worker) = 0 \<and>
   calls long_lived_worker = []"
  by code_simp

text \<open>
  C10, amended: when the maximal age is within the range of \<open>timedelta\<close>, a fresh
  entry whose stored record is the empty dictionary is returned by \<open>get\<close>, but
  \<open>reverse_geocode\<close> treats it as a miss: it returns, counts no cache hit, counts one
  API call and issues one request. And when the resolver returns to \<open>process_image\<close>
  a result that is not a non-empty record, \<open>process_image\<close> logs that no location was
  found and leaves \<open>total_processed\<close> as it was; such a result of the resolver is
  always \<open>None\<close>, never an empty record.
\<close>

theorem empty_cached_record_is_a_miss:
  "(map_of (cache_data (cache st)) (generate_cache_key lib (cache st) lat lon) = Some e \<and>
    timestamp e = Some (JStr s) \<and> s \<noteq> [] \<and> fromisoformat lib s = Some ts \<and>
    timedelta_days (cache_max_age_days (cache st)) = Some max_age \<and>
    datetime_now w (length (calls st)) - ts \<le> max_age \<and>
    location_data e = Some [] \<longrightarrow>
      get lib (datetime_now w (length (calls st))) (cache st) lat lon = Return (Some []) (cache st) \<and>
      returns (reverse_geocode lib w st lat lon) \<and>
      cache_hits (stats (state_of (reverse_geocode lib w st lat lon))) = cache_hits (stats st) \<and>
      api_calls (stats (state_of (reverse_geocode lib w st lat lon))) = api_calls (stats st) + 1 \<and>
      calls (state_of (reverse_geocode lib w st lat lon)) = calls st @ [HttpGet lat lon]) \<and>
   (\<not> (skip_existing st0 \<and>
        fst (check_existing_location_data w (log (LImage (path_name image_path)) st0) image_path)) \<and>
    get_gps_data lib w
      (if skip_existing st0
       then snd (check_existing_location_data w (log (LImage (path_name image_path)) st0) image_path)
       else log (LImage (path_name image_path)) st0) image_path = Return (Some (lat, lon)) st3 \<and>
    reverse_geocode lib w (log (LGps lat lon) st3) lat lon = Return r st5 \<and>
    \<not> truthy_location r \<longrightarrow>
      r = None \<and>
      process_image lib w st0 image_path = Return () (log LNoLocation st5) \<and>
      total_processed (stats (log LNoLocation st5)) = total_processed (stats st0))"
proof (intro conjI impI)
  let ?now = "datetime_now w (length (calls st))"
  assume a: "map_of (cache_data (cache st)) (generate_cache_key lib (cache st) lat lon) = Some e \<and>
    timestamp e = Some (JStr s) \<and> s \<noteq> [] \<and> fromisoformat lib s = Some ts \<and>
    timedelta_days (cache_max_age_days (cache st)) = Some max_age \<and>
    datetime_now w (length (calls st)) - ts \<le> max_age \<and>
    location_data e = Some []"
  then show g: "get lib ?now (cache st) lat lon = Return (Some []) (cache st)"
    by (simp add: get_def)
  have f: "\<not> truthy_location (Some [])" by simp
  note m = reverse_geocode_miss [OF g f]
  from m show "returns (reverse_geocode lib w st lat lon)" by simp
  from m show "cache_hits (stats (state_of (reverse_geocode lib w st lat lon))) = cache_hits (stats st)"
    by simp
  from m show "api_calls (stats (state_of (reverse_geocode lib w st lat lon))) = api_calls (stats st) + 1"
    by simp
  from m show "calls (state_of (reverse_geocode lib w st lat lon)) = calls st @ [HttpGet lat lon]"
    by simp
next
  assume b: "\<not> (skip_existing st0 \<and>
        fst (check_existing_location_data w (log (LImage (path_name image_path)) st0) image_path)) \<and>
    get_gps_data lib w
      (if skip_existing st0
       then snd (check_existing_location_data w (log (LImage (path_name image_path)) st0) image_path)
       else log (LImage (path_name image_path)) st0) image_path = Return (Some (lat, lon)) st3 \<and>
    reverse_geocode lib w (log (LGps lat lon) st3) lat lon = Return r st5 \<and>
    \<not> truthy_location r"
  then have "r \<noteq> Some []"
    by (intro reverse_geocode_never_empty [of lib w "log (LGps lat lon) st3" lat lon r st5]) simp
  with b show "r = None"
    by (cases r) (auto simp: neq_Nil_conv)
  from b show "process_image lib w st0 image_path = Return () (log LNoLocation st5)"
    by (cases "skip_existing st0")
       (auto simp: process_image_def process_location_def Let_def split: prod.splits)
  from b have 3: "stats st3 = stats st0"
    by (cases "skip_existing st0") (auto dest!: get_gps_data_stats)
  have "total_processed (stats st5) = total_processed (stats (log (LGps lat lon) st3))"
    using reverse_geocode_total_processed [of lib w "log (LGps lat lon) st3" lat lon] b by simp
  with 3 show "total_processed (stats (log LNoLocation st5)) = total_processed (stats st0)"
    by simp
qed

lemma silent_path:
  "\<not> (skip_existing empty_location_worker \<and>
        fst (check_existing_location_data silent_world
              (log (LImage (path_name ''/photos/a.jpg'')) empty_location_worker) ''/photos/a.jpg'')) \<and>
   get_gps_data demo_lib silent_world
      (if skip_existing empty_location_worker
       then snd (check_existing_location_data silent_world
                   (log (LImage (path_name ''/photos/a.jpg'')) empty_location_worker) ''/photos/a.jpg'')
       else log (LImage (path_name ''/photos/a.jpg'')) empty_location_worker) ''/photos/a.jpg''
   = Return (Some (488583701, 22944803))
      (record_call (Run [''exiftool'', ''-GPSLatitude'', ''-GPSLongitude'', ''-n'', ''/photos/a.jpg''])
        (record_call (Exists ''/photos/a.jpg.xmp'')
          (record_call (Run [''exiftool'', ''-IPTC:City'', ''-XMP:City'', ''-s3'', ''/photos/a.jpg''])
            (log (LImage ''a.jpg'') empty_location_worker))))"
  by code_simp


lemma silent_resolver:
  "case reverse_geocode demo_lib silent_world
      (log (LGps 488583701 22944803)
        (record_call (Run [''exiftool'', ''-GPSLatitude'', ''-GPSLongitude'', ''-n'', ''/photos/a.jpg''])
          (record_call (Exists ''/photos/a.jpg.xmp'')
            (record_call (Run [''exiftool'', ''-IPTC:City'', ''-XMP:City'', ''-s3'', ''/photos/a.jpg''])
              (log (LImage ''a.jpg'') empty_location_worker))))) 488583701 22944803 of
     Return r s \<Rightarrow> r = None
   | Raise e s \<Rightarrow> False"
  by code_simp

theorem empty_cached_record_is_a_miss_witness:
  "get demo_lib (datetime_now demo_world 0) (cache empty_location_worker) 488583701 22944803 =
     Return (Some []) (cache empty_location_worker) \<and>
   cache_hits (stats (state_of (reverse_geocode demo_lib demo_world empty_location_worker 488583701 22944803))) = 0 \<and>
   api_calls (stats (state_of (reverse_geocode demo_lib demo_world empty_location_worker 488583701 22944803))) = 1 \<and>
   calls (state_of (reverse_geocode demo_lib demo_world empty_location_worker 488583701 22944803)) =
     [HttpGet 488583701 22944803] \<and>
   (case process_image demo_lib silent_world empty_location_worker ''/photos/a.jpg'' of
      Return u st' \<Rightarrow> total_processed (stats st') = 0 \<and> last (signals st') = Log LNoLocation
    | Raise e st' \<Rightarrow> False)"
proof -
  let ?st3 = "record_call (Run [''exiftool'', ''-GPSLatitude'', ''-GPSLongitude'', ''-n'', ''/photos/a.jpg''])
          (record_call (Exists ''/photos/a.jpg.xmp'')
            (record_call (Run [''exiftool'', ''-IPTC:City'', ''-XMP:City'', ''-s3'', ''/photos/a.jpg''])
              (log (LImage ''a.jpg'') empty_location_worker)))"
  have z: "calls empty_location_worker = []" "stats empty_location_worker = zero_stats"
    by (simp_all add: empty_location_worker_def demo_worker_def)
  have 1: "map_of (cache_data (cache empty_location_worker))
      (generate_cache_key demo_lib (cache empty_location_worker) 488583701 22944803) =
      Some (old_entry\<lparr>location_data := Some []\<rparr>) \<and>
    timestamp (old_entry\<lparr>location_data := Some []\<rparr>) = Some (JStr ''1700000000000000'') \<and>
    ''1700000000000000'' \<noteq> [] \<and>
    fromisoformat demo_lib ''1700000000000000'' = Some 1700000000000000 \<and>
    timedelta_days (cache_max_age_days (cache empty_location_worker)) = Some 2592000000000 \<and>
    datetime_now demo_world (length (calls empty_location_worker)) - 1700000000000000 \<le> 2592000000000 \<and>
    location_data (old_entry\<lparr>location_data := Some []\<rparr>) = Some []"
    by code_simp
  obtain r st5 where 2: "reverse_geocode demo_lib silent_world (log (LGps 488583701 22944803) ?st3)
      488583701 22944803 = Return r st5" and n: "r = None"
    using silent_resolver by (auto split: outcome.splits)
  have 3: "\<not> truthy_location r" using n by simp
  note t = empty_cached_record_is_a_miss [of empty_location_worker demo_lib 488583701 22944803
      "old_entry\<lparr>location_data := Some []\<rparr>" "''1700000000000000''" 1700000000000000
      2592000000000 demo_world]
  note a = t [THEN conjunct1, THEN mp, OF 1]
  note b = empty_cached_record_is_a_miss [of empty_location_worker demo_lib 488583701 22944803
      "old_entry\<lparr>location_data := Some []\<rparr>" "''1700000000000000''" 1700000000000000
      2592000000000 silent_world empty_location_worker "''/photos/a.jpg''" ?st3 r st5,
      THEN conjunct2, THEN mp, OF conjI [OF silent_path [THEN conjunct1]
        conjI [OF silent_path [THEN conjunct2] conjI [OF 2 3]]]]
  have p: "case process_image demo_lib silent_world empty_location_worker ''/photos/a.jpg'' of
      Return u st' \<Rightarrow> total_processed (stats st') = 0 \<and> last (signals st') = Log LNoLocation
    | Raise e st' \<Rightarrow> False"
    using b by (simp add: z zero_stats_def)
  show ?thesis
    using a p by (simp add: z zero_stats_def)
qed

subsection \<open>The run and its cancellation\<close>

lemma events_log [simp]: "events (log l st) = events st"
  by (simp add: log_def emit_def events_def)

lemma events_emit: "events (emit s st) = events st @ (if is_log s then [] else [s])"
  by (simp add: emit_def events_def)

lemma events_record_call [simp]: "events (record_call c st) = events st"
  by (simp add: record_call_def events_def)

lemma events_stats_update [simp]: "events (st\<lparr>stats := x\<rparr>) = events st"
  by (simp add: events_def)

lemma events_cache_update [simp]: "events (st\<lparr>cache := x\<rparr>) = events st"
  by (simp add: events_def)

lemma events_stop [simp]: "events (stop st) = events st"
  by (simp add: events_def stop_def)

lemma should_stop_log [simp]: "should_stop (log l st) = should_stop st"
  by (simp add: log_def emit_def)

lemma should_stop_emit [simp]: "should_stop (emit s st) = should_stop st"
  by (simp add: emit_def)

lemma should_stop_record_call [simp]: "should_stop (record_call c st) = should_stop st"
  by (simp add: record_call_def)

lemma frame_check_existing [simp]:
  "should_stop (snd (check_existing_location_data w st p)) = should_stop st"
  "events (snd (check_existing_location_data w st p)) = events st"
  by (simp_all add: check_existing_location_data_def Let_def split: proc_result.splits)

lemma frame_choose_file:
  "should_stop (state_of (choose_file_to_read w st p)) = should_stop st"
  "events (state_of (choose_file_to_read w st p)) = events st"
  by (simp_all add: choose_file_to_read_def Let_def split: option.splits)


lemma frame_get_gps_data:
  "should_stop (state_of (get_gps_data lib w st p)) = should_stop st"
  "events (state_of (get_gps_data lib w st p)) = events st"
proof -
  have "should_stop (state_of (get_gps_data lib w st p)) = should_stop st \<and>
        events (state_of (get_gps_data lib w st p)) = events st"
  proof (cases "choose_file_to_read w st p")
    case (Return f s)
    have "should_stop s = should_stop st" "events s = events st"
      using frame_choose_file [of w st p, unfolded Return state_of.simps] by simp_all
    then show ?thesis
      by (simp add: get_gps_data_def Return Let_def
          split: proc_result.splits option.splits prod.splits)
  next
    case (Raise e s)
    have "should_stop s = should_stop st" "events s = events st"
      using frame_choose_file [of w st p, unfolded Raise state_of.simps] by simp_all
    then show ?thesis by (simp add: get_gps_data_def Raise)
  qed
  then show "should_stop (state_of (get_gps_data lib w st p)) = should_stop st"
    and "events (state_of (get_gps_data lib w st p)) = events st" by simp_all
qed

lemma frame_compare [simp]:
  "should_stop (snd (compare_location_data w st p loc)) = should_stop st"
  "events (snd (compare_location_data w st p loc)) = events st"
  by (simp_all add: compare_location_data_def Let_def split: proc_result.splits)


lemma frame_reverse_geocode:
  "should_stop (state_of (reverse_geocode lib w st lat lon)) = should_stop st \<and>
   events (state_of (reverse_geocode lib w st lat lon)) = events st"
  by (cases "get lib (datetime_now w (length (calls st))) (cache st) lat lon")
     (simp_all add: reverse_geocode_def Let_def bump_cache_hits_def bump_api_calls_def
        split: http_response.splits option.splits list.splits)

lemma frame_write [simp]:
  "should_stop (write_location_data lib w st p loc) = should_stop st"
  "events (write_location_data lib w st p loc) = events st"
  by (simp_all add: write_location_data_def Let_def bump_metadata_written_def
      split: proc_result.splits)

lemma frame_process_location [simp]:
  "should_stop (process_location lib w st p loc) = should_stop st"
  "events (process_location lib w st p loc) = events st"
  by (simp_all add: process_location_def Let_def split_beta bump_total_processed_def
      bump_metadata_unchanged_def)


lemma frame_process_image:
  "should_stop (state_of (process_image lib w st p)) = should_stop st"
  "events (state_of (process_image lib w st p)) = events st"
proof -
  let ?st1 = "log (LImage (path_name p)) st"
  let ?st2 = "if skip_existing ?st1 then snd (check_existing_location_data w ?st1 p) else ?st1"
  have f2: "should_stop ?st2 = should_stop st" "events ?st2 = events st"
    by simp_all
  have "should_stop (state_of (process_image lib w st p)) = should_stop st \<and>
        events (state_of (process_image lib w st p)) = events st"
  proof (cases "get_gps_data lib w ?st2 p")
    case (Return r s)
    note gps = Return
    have "should_stop s = should_stop ?st2" "events s = events ?st2"
      using frame_get_gps_data [of lib w ?st2 p, unfolded Return state_of.simps] by simp_all
    with f2 have s: "should_stop s = should_stop st" "events s = events st" by simp_all
    show ?thesis
    proof (cases r)
      case None
      then show ?thesis
        using s gps
        by (auto simp: process_image_def Let_def split_beta bump_skipped_already_tagged_def
            bump_skipped_no_gps_def)
    next
      case (Some ll)
      obtain lat lon where ll: "ll = (lat, lon)" by (cases ll)
      show ?thesis
      proof (cases "reverse_geocode lib w (log (LGps lat lon) s) lat lon")
        case (Return loc s5)
        have "should_stop s5 = should_stop s" "events s5 = events s"
          using frame_reverse_geocode [of lib w "log (LGps lat lon) s" lat lon]
          unfolding Return by simp_all
        then show ?thesis
          using s gps Some ll Return
          by (auto simp: process_image_def Let_def split_beta bump_skipped_already_tagged_def)
      next
        case (Raise e s5)
        have "should_stop s5 = should_stop s" "events s5 = events s"
          using frame_reverse_geocode [of lib w "log (LGps lat lon) s" lat lon]
          unfolding Raise by simp_all
        then show ?thesis
          using s gps Some ll Raise
          by (auto simp: process_image_def Let_def split_beta bump_skipped_already_tagged_def)
      qed
    qed
  next
    case (Raise e s)
    have "should_stop s = should_stop ?st2" "events s = events ?st2"
      using frame_get_gps_data [of lib w ?st2 p, unfolded Raise state_of.simps] by simp_all
    with f2 have s: "should_stop s = should_stop st" "events s = events st" by simp_all
    show ?thesis
      using s Raise
      by (auto simp: process_image_def Let_def split_beta bump_skipped_already_tagged_def)
  qed
  then show "should_stop (state_of (process_image lib w st p)) = should_stop st"
    and "events (state_of (process_image lib w st p)) = events st" by simp_all
qed

lemma events_process_files:
  "returns (process_files lib w n i fs st) \<Longrightarrow>
   events (state_of (process_files lib w n i fs st)) =
     events st @ map (\<lambda>j. Progress (Suc j) n) [i..<i + length fs] \<and>
   should_stop (state_of (process_files lib w n i fs st)) = should_stop st"
proof (induction fs arbitrary: i st)
  case Nil
  then show ?case by simp
next
  case (Cons f fs)
  let ?st0 = "emit (Progress (i + 1) n) st"
  show ?case
  proof (cases "process_image lib w ?st0 f")
    case (Return u s)
    have s: "should_stop s = should_stop st" "events s = events st @ [Progress (Suc i) n]"
      using frame_process_image [of lib w ?st0 f, unfolded Return state_of.simps]
      by (simp_all add: events_emit)
    from Cons.prems Return have r: "returns (process_files lib w n (Suc i) fs s)" by simp
    have "[i..<Suc (i + length fs)] = i # [Suc i..<Suc (i + length fs)]"
      by (rule upt_conv_Cons) simp
    then have "[i..<i + length (f # fs)] = i # [Suc i..<Suc i + length fs]"
      by simp
    then show ?thesis
      using Cons.IH [OF r] s Return by simp
  next
    case (Raise e s)
    with Cons.prems show ?thesis by simp
  qed
qed

lemma run_loop_cancelled:
  "returns (process_files lib w n i pre st) \<Longrightarrow> pre \<noteq> [] \<Longrightarrow> \<not> should_stop st \<Longrightarrow>
   list_all (\<lambda>j. \<not> stop_requested w j) [i..<i + length pre - 1] \<Longrightarrow>
   stop_requested w (i + length pre - 1) \<Longrightarrow>
   run_loop lib w n i (pre @ f # rest) st =
     Return () (log LCancelled (stop (state_of (process_files lib w n i pre st))))"
proof (induction pre arbitrary: i st)
  case Nil
  then show ?case by simp
next
  case (Cons p pre)
  let ?st0 = "emit (Progress (i + 1) n) st"
  show ?case
  proof (cases "process_image lib w ?st0 p")
    case (Raise e s)
    with Cons.prems show ?thesis by simp
  next
    case (Return u s)
    have s: "should_stop s = should_stop st"
      using frame_process_image [of lib w ?st0 p, unfolded Return state_of.simps] by simp
    show ?thesis
    proof (cases "pre = []")
      case True
      with Cons.prems Return show ?thesis by (simp add: stop_def)
    next
      case False
      then have "i < i + length pre" by simp
      then have "[i..<i + length pre] = i # [Suc i..<i + length pre]"
        by (rule upt_conv_Cons)
      then have l: "[i..<i + length (p # pre) - 1] = i # [Suc i..<Suc i + length pre - 1]"
        by simp
      from Cons.prems Return have r: "returns (process_files lib w n (Suc i) pre s)" by simp
      have ns: "\<not> should_stop s" using s Cons.prems by simp
      have a: "list_all (\<lambda>j. \<not> stop_requested w j) [Suc i..<Suc i + length pre - 1]"
        and ni: "\<not> stop_requested w i"
        using Cons.prems(4) unfolding l by simp_all
      have b: "stop_requested w (Suc i + length pre - 1)"
        using Cons.prems(5) False by simp
      show ?thesis
        using Cons.IH [OF r False ns a b] Return ni Cons.prems(3) by simp
    qed
  qed
qed


lemma frame_log_header [simp]:
  "should_stop (log_header n st) = should_stop st"
  "events (log_header n st) = events st"
  by (simp_all add: log_header_def Let_def)

lemma frame_log_summary [simp]:
  "stats (log_summary n st) = stats st"
  "cache (log_summary n st) = cache st"
  "calls (log_summary n st) = calls st"
  "events (log_summary n st) = events st"
  by (simp_all add: log_summary_def Let_def)

lemma signals_log_summary:
  "take (length (signals st)) (signals (log_summary n st)) = signals st"
  by (simp add: log_summary_def Let_def)

lemma frame_find_image_files [simp]:
  "should_stop (snd (find_image_files lib w st)) = should_stop st"
  "events (snd (find_image_files lib w st)) = events st"
  by (simp_all add: find_image_files_def Let_def)

lemma stop_idem: "should_stop st \<Longrightarrow> stop st = st"
  by (simp add: stop_def)

lemma run_loop_of_cancelled_run:
  assumes k: "k < length files"
    and flag: "if k = 0 then should_stop st
               else \<not> should_stop st \<and> list_all (\<lambda>i. \<not> stop_requested w i) [0..<k - 1] \<and>
                    stop_requested w (k - 1)"
    and ok: "returns (process_files lib w n 0 (take k files) st)"
  shows "run_loop lib w n 0 files st =
           Return () (log LCancelled (stop (state_of (process_files lib w n 0 (take k files) st))))"
proof (cases "k = 0")
  case True
  with k obtain f rest where "files = f # rest" by (cases files) auto
  with True flag show ?thesis by (simp add: stop_idem)
next
  case False
  have f: "files = take k files @ files ! k # drop (Suc k) files"
    using k by (rule id_take_nth_drop)
  have ne: "take k files \<noteq> []" using False k by auto
  have len: "length (take k files) = k" using k by simp
  have "run_loop lib w n 0 (take k files @ files ! k # drop (Suc k) files) st =
      Return () (log LCancelled (stop (state_of (process_files lib w n 0 (take k files) st))))"
    using False flag k by (intro run_loop_cancelled [OF ok ne]) (simp_all add: min_def)
  with f show ?thesis by simp
qed

lemma run_cancelled_general:
  assumes found: "find_image_files lib w (log LSearching st) = (files, st0)"
    and k: "k < length files"
    and flag: "stop_after w st k"
    and ok: "returns (process_files lib w (length files) 0 (take k files)
               (log_header (length files) st0))"
  shows "(let stk = state_of (process_files lib w (length files) 0 (take k files)
                      (log_header (length files) st0));
              fin = run lib w st
          in fin = emit Finished (log LDone (emit (CacheStats (stats stk))
                     (log_summary (length files) (log LCancelled (stop stk))))) \<and>
             stats fin = stats stk \<and> cache fin = cache stk \<and> calls fin = calls stk \<and>
             take (Suc (length (signals stk))) (signals fin) = signals stk @ [Log LCancelled] \<and>
             events fin = events st @ map (\<lambda>j. Progress (Suc j) (length files)) [0..<k] @
                            [CacheStats (stats stk), Finished])"
proof -
  let ?n = "length files"
  let ?st3 = "log_header ?n st0"
  define stk where "stk = state_of (process_files lib w ?n 0 (take k files) ?st3)"
  have st0: "should_stop st0 = should_stop st" "events st0 = events st"
    using frame_find_image_files [of lib w "log LSearching st"] found by simp_all
  have flag3: "if k = 0 then should_stop ?st3
               else \<not> should_stop ?st3 \<and> list_all (\<lambda>i. \<not> stop_requested w i) [0..<k - 1] \<and>
                    stop_requested w (k - 1)"
    using flag st0 by (auto simp: stop_after_def split: if_splits)
  have loop: "run_loop lib w ?n 0 files ?st3 = Return () (log LCancelled (stop stk))"
    unfolding stk_def by (rule run_loop_of_cancelled_run [OF k flag3 ok])
  have ne: "files \<noteq> []" using k by auto
  have fin: "run lib w st = emit Finished (log LDone (emit (CacheStats (stats stk))
                     (log_summary ?n (log LCancelled (stop stk)))))"
    using ne by (simp add: run_def found loop Let_def stop_def)
  have ev: "events stk = events st @ map (\<lambda>j. Progress (Suc j) ?n) [0..<k]"
    using events_process_files [OF ok] k st0 unfolding stk_def by simp
  have sig: "take (Suc (length (signals stk))) (signals (run lib w st)) = signals stk @ [Log LCancelled]"
  proof -
    let ?s = "log LCancelled (stop stk)"
    let ?rest = "drop (length (signals ?s)) (signals (log_summary ?n ?s))"
    have s: "signals ?s = signals stk @ [Log LCancelled]" by (simp add: stop_def)
    have "signals (log_summary ?n ?s) = signals ?s @ ?rest"
      using signals_log_summary [of ?s ?n] by (metis append_take_drop_id)
    then have "signals (run lib w st) =
        (signals stk @ [Log LCancelled]) @ (?rest @ [CacheStats (stats stk), Log LDone, Finished])"
      unfolding fin s by simp
    then show ?thesis by simp
  qed
  have proj: "stats (run lib w st) = stats stk" "cache (run lib w st) = cache stk"
    "calls (run lib w st) = calls stk"
    unfolding fin by (simp_all add: stop_def emit_def log_def)
  have evf: "events (run lib w st) =
      events st @ map (\<lambda>j. Progress (Suc j) ?n) [0..<k] @ [CacheStats (stats stk), Finished]"
    unfolding fin by (simp add: events_emit ev)
  show ?thesis
    unfolding Let_def stk_def [symmetric]
    using fin sig proj evf by blast
qed

lemma stop_log: "log l (stop st) = stop (log l st)"
  by (simp add: log_def emit_def stop_def)

lemma stop_emit: "emit s (stop st) = stop (emit s st)"
  by (simp add: emit_def stop_def)

lemma stop_record_call: "record_call c (stop st) = stop (record_call c st)"
  by (simp add: record_call_def stop_def)

lemma stop_fields [simp]:
  "calls (stop st) = calls st" "exiftool_path (stop st) = exiftool_path st"
  "skip_existing (stop st) = skip_existing st" "cache (stop st) = cache st"
  "stats (stop st) = stats st" "signals (stop st) = signals st"
  by (simp_all add: stop_def)

lemma stop_check_existing:
  "check_existing_location_data w (stop st) p =
     (fst (check_existing_location_data w st p), stop (snd (check_existing_location_data w st p)))"
  by (simp add: check_existing_location_data_def Let_def stop_record_call split: proc_result.splits)

lemma stop_choose_file:
  "choose_file_to_read w (stop st) p =
     (case choose_file_to_read w st p of
        Return f s \<Rightarrow> Return f (stop s) | Raise e s \<Rightarrow> Raise e (stop s))"
  by (simp add: choose_file_to_read_def Let_def stop_record_call stop_log split: option.splits)

lemma stop_get_gps_data:
  "get_gps_data lib w (stop st) p =
     (case get_gps_data lib w st p of
        Return r s \<Rightarrow> Return r (stop s) | Raise e s \<Rightarrow> Raise e (stop s))"
  unfolding get_gps_data_def stop_choose_file
  by (cases "choose_file_to_read w st p")
     (simp_all add: Let_def stop_record_call stop_log
        split: proc_result.splits option.splits prod.splits)

lemma stop_compare:
  "compare_location_data w (stop st) p loc =
     (fst (compare_location_data w st p loc), stop (snd (compare_location_data w st p loc)))"
  by (simp add: compare_location_data_def Let_def stop_record_call split: proc_result.splits)

lemma stop_bumps:
  "bump_cache_hits (stop st) = stop (bump_cache_hits st)"
  "bump_api_calls (stop st) = stop (bump_api_calls st)"
  "bump_metadata_written (stop st) = stop (bump_metadata_written st)"
  "bump_skipped_already_tagged (stop st) = stop (bump_skipped_already_tagged st)"
  "bump_skipped_no_gps (stop st) = stop (bump_skipped_no_gps st)"
  "bump_total_processed (stop st) = stop (bump_total_processed st)"
  "bump_metadata_unchanged (stop st) = stop (bump_metadata_unchanged st)"
  by (simp_all add: stop_def bump_cache_hits_def bump_api_calls_def bump_metadata_written_def
      bump_skipped_already_tagged_def bump_skipped_no_gps_def bump_total_processed_def
      bump_metadata_unchanged_def)

lemma stop_cache_update: "(stop st)\<lparr>cache := c\<rparr> = stop (st\<lparr>cache := c\<rparr>)"
  by (simp add: stop_def)

lemma stop_reverse_geocode:
  "reverse_geocode lib w (stop st) lat lon =
     (case reverse_geocode lib w st lat lon of
        Return r s \<Rightarrow> Return r (stop s) | Raise e s \<Rightarrow> Raise e (stop s))"
  by (cases "get lib (datetime_now w (length (calls st))) (cache st) lat lon")
     (simp_all add: reverse_geocode_def Let_def stop_cache_update stop_log stop_bumps
        stop_record_call split: http_response.splits option.splits list.splits)

lemma stop_write:
  "write_location_data lib w (stop st) p loc = stop (write_location_data lib w st p loc)"
  by (simp add: write_location_data_def Let_def stop_log stop_bumps stop_record_call
      split: proc_result.splits)

lemma stop_process_location:
  "process_location lib w (stop st) p loc = stop (process_location lib w st p loc)"
  by (simp add: process_location_def Let_def split_beta stop_log stop_bumps stop_compare stop_write)

lemma stop_process_image:
  "process_image lib w (stop st) p =
     (case process_image lib w st p of
        Return u s \<Rightarrow> Return u (stop s) | Raise e s \<Rightarrow> Raise e (stop s))"
proof -
  let ?st1 = "log (LImage (path_name p)) st"
  let ?st2 = "if skip_existing ?st1 then snd (check_existing_location_data w ?st1 p) else ?st1"
  show ?thesis
  proof (cases "get_gps_data lib w ?st2 p")
    case (Return r s)
    note gps = Return
    show ?thesis
    proof (cases r)
      case None
      then show ?thesis
        using gps
        by (auto simp: process_image_def Let_def split_beta stop_log stop_bumps
            stop_check_existing stop_get_gps_data)
    next
      case (Some ll)
      obtain lat lon where ll: "ll = (lat, lon)" by (cases ll)
      show ?thesis
        using gps Some ll
        by (cases "reverse_geocode lib w (log (LGps lat lon) s) lat lon")
           (auto simp: process_image_def Let_def split_beta stop_log stop_bumps
              stop_check_existing stop_get_gps_data stop_reverse_geocode stop_process_location)
    qed
  next
    case (Raise e s)
    then show ?thesis
      by (auto simp: process_image_def Let_def split_beta stop_log stop_bumps stop_check_existing
            stop_get_gps_data)
  qed
qed

lemma demo_found:
  "find_image_files demo_lib demo_world (log LSearching demo_worker) =
     (demo_files, record_call (Walk ''/photos'') (log LSearching demo_worker))"
  by code_simp

lemma demo_flag: "stop_after demo_world demo_worker 2"
  by code_simp

lemma demo_ok:
  "returns (process_files demo_lib demo_world (length demo_files) 0 (take 2 demo_files)
     (log_header (length demo_files) (record_call (Walk ''/photos'') (log LSearching demo_worker))))"
  by code_simp

lemma demo_stats:
  "stats (state_of (process_files demo_lib demo_world (length demo_files) 0 (take 2 demo_files)
     (log_header (length demo_files) (record_call (Walk ''/photos'') (log LSearching demo_worker))))) =
   \<lparr>cache_hits = 1, api_calls = 1, total_processed = 2, skipped_already_tagged = 0,
    skipped_no_gps = 0, metadata_written = 2, metadata_unchanged = 0\<rparr>"
  by code_simp

lemma late_found:
  "find_image_files demo_lib late_stop_world (log LSearching demo_worker) =
     (demo_files, record_call (Walk ''/photos'') (log LSearching demo_worker))"
  by code_simp

lemma late_flag: "stop_after late_stop_world demo_worker 3"
  by code_simp

lemma late_ok:
  "returns (process_files demo_lib late_stop_world (length demo_files) 0 demo_files
     (log_header (length demo_files) (record_call (Walk ''/photos'') (log LSearching demo_worker))))"
  by code_simp


lemma late_signals:
  "list_all (\<lambda>s. s \<noteq> Log LCancelled)
     (signals (state_of (process_files demo_lib late_stop_world (length demo_files) 0 demo_files
        (log_header (length demo_files)
           (record_call (Walk ''/photos'') (log LSearching demo_worker))))))"
  by code_simp

lemma run_loop_not_cancelled:
  "returns (process_files lib w n i fs st) \<Longrightarrow> fs \<noteq> [] \<Longrightarrow> \<not> should_stop st \<Longrightarrow>
   list_all (\<lambda>j. \<not> stop_requested w j) [i..<i + length fs - 1] \<Longrightarrow>
   stop_requested w (i + length fs - 1) \<Longrightarrow>
   run_loop lib w n i fs st = Return () (stop (state_of (process_files lib w n i fs st)))"
proof (induction fs arbitrary: i st)
  case Nil
  then show ?case by simp
next
  case (Cons p fs)
  let ?st0 = "emit (Progress (i + 1) n) st"
  show ?case
  proof (cases "process_image lib w ?st0 p")
    case (Raise e s)
    with Cons.prems show ?thesis by simp
  next
    case (Return u s)
    have s: "should_stop s = should_stop st"
      using frame_process_image [of lib w ?st0 p, unfolded Return state_of.simps] by simp
    show ?thesis
    proof (cases "fs = []")
      case True
      with Cons.prems Return show ?thesis by simp
    next
      case False
      then have "i < i + length fs" by simp
      then have "[i..<i + length fs] = i # [Suc i..<i + length fs]"
        by (rule upt_conv_Cons)
      then have l: "[i..<i + length (p # fs) - 1] = i # [Suc i..<Suc i + length fs - 1]"
        by simp
      from Cons.prems Return have r: "returns (process_files lib w n (Suc i) fs s)" by simp
      have ns: "\<not> should_stop s" using s Cons.prems by simp
      have a: "list_all (\<lambda>j. \<not> stop_requested w j) [Suc i..<Suc i + length fs - 1]"
        and ni: "\<not> stop_requested w i"
        using Cons.prems(4) unfolding l by simp_all
      have b: "stop_requested w (Suc i + length fs - 1)"
        using Cons.prems(5) False by simp
      show ?thesis
        using Cons.IH [OF r False ns a b] Return ni Cons.prems(3) by simp
    qed
  qed
qed

lemma log_summary_lines:
  "set (signals (log_summary n st)) - set (signals st) \<subseteq> {s. s \<noteq> Log LCancelled}"
  by (auto simp: log_summary_def Let_def)

lemma should_stop_log_summary [simp]: "should_stop (log_summary n st) = should_stop st"
  by (simp add: log_summary_def Let_def)

text \<open>
  The statement of C8 fails when \<open>stop()\<close> is called while the last file is
  processed: the flag is set after 3 of 3 files, but the loop has no check left, so the
  run logs no cancelled line (it ends like a run that was not cancelled).
\<close>

theorem run_cancelled_counterexample:
  "fst (find_image_files demo_lib late_stop_world (log LSearching demo_worker)) = demo_files \<and>
   length demo_files = 3 \<and>
   stop_after late_stop_world demo_worker 3 \<and>
   should_stop (run demo_lib late_stop_world demo_worker) \<and>
   Log LCancelled \<notin> set (signals (run demo_lib late_stop_world demo_worker)) \<and>
   last (signals (run demo_lib late_stop_world demo_worker)) = Finished"
proof -
  let ?st3 = "log_header (length demo_files)
                (record_call (Walk ''/photos'') (log LSearching demo_worker))"
  define stk where "stk = state_of (process_files demo_lib late_stop_world (length demo_files) 0
                            demo_files ?st3)"
  have n: "length demo_files = 3" "demo_files \<noteq> []" by (simp_all add: demo_files_def)
  have ns: "\<not> should_stop ?st3" by (simp add: demo_worker_def)
  have u: "[0..<0 + length demo_files - 1] = [0, Suc 0]"
    by (simp add: n upt_rec)
  have q: "list_all (\<lambda>j. \<not> stop_requested late_stop_world j) [0..<0 + length demo_files - 1]"
    unfolding u by (simp add: late_stop_world_def)
  have r: "stop_requested late_stop_world (0 + length demo_files - 1)"
    by (simp add: n late_stop_world_def)
  have loop: "run_loop demo_lib late_stop_world (length demo_files) 0 demo_files ?st3 =
      Return () (stop stk)"
    unfolding stk_def by (rule run_loop_not_cancelled [OF late_ok n(2) ns q r])
  have fin: "run demo_lib late_stop_world demo_worker =
      emit Finished (log LDone (emit (CacheStats (stats (stop stk)))
        (log_summary (length demo_files) (stop stk))))"
    using n(2) by (simp add: run_def late_found loop Let_def)
  have k: "Log LCancelled \<notin> set (signals stk)"
    using late_signals unfolding stk_def list_all_iff by blast
  have "Log LCancelled \<notin> set (signals (log_summary (length demo_files) (stop stk)))"
    using log_summary_lines [of "length demo_files" "stop stk"] k by auto
  then have c: "Log LCancelled \<notin> set (signals (run demo_lib late_stop_world demo_worker))"
    unfolding fin by simp
  have s: "should_stop (run demo_lib late_stop_world demo_worker)"
    unfolding fin by (simp add: stop_def)
  have l: "last (signals (run demo_lib late_stop_world demo_worker)) = Finished"
    unfolding fin by simp
  show ?thesis
    using late_found late_flag n(1) s c l by simp
qed

text \<open>
  C8, amended: let the flag be found set for the first time at the check after \<open>k\<close> of the
  \<open>n\<close> files found (\<open>k < n\<close>), these \<open>k\<close> files having been processed without an
  unexpected failure. Then the run ends in the state that processing exactly these
  \<open>k\<close> files gives (statistics, cache and external calls are theirs, nothing is undone),
  followed by the cancelled line, the summary, the statistics snapshot and the finished
  signal; the signals other than log lines are \<open>k\<close> progress signals, one snapshot and
  one finished signal, so there is no error signal. The flag is read nowhere else:
  \<open>process_image\<close> on a worker whose flag is set does what it does when the flag is
  not set.
\<close>

theorem run_cancelled:
  assumes found: "find_image_files lib w (log LSearching st) = (files, st0)"
    and k: "k < length files"
    and flag: "stop_after w st k"
    and ok: "returns (process_files lib w (length files) 0 (take k files)
               (log_header (length files) st0))"
  shows "(let stk = state_of (process_files lib w (length files) 0 (take k files)
                      (log_header (length files) st0));
              fin = run lib w st
          in fin = emit Finished (log LDone (emit (CacheStats (stats stk))
                     (log_summary (length files) (log LCancelled (stop stk))))) \<and>
             stats fin = stats stk \<and> cache fin = cache stk \<and> calls fin = calls stk \<and>
             take (Suc (length (signals stk))) (signals fin) = signals stk @ [Log LCancelled] \<and>
             events fin = events st @ map (\<lambda>j. Progress (Suc j) (length files)) [0..<k] @
                            [CacheStats (stats stk), Finished]) \<and>
         process_image lib w (stop s) p =
           (case process_image lib w s p of
              Return u s' \<Rightarrow> Return u (stop s') | Raise e s' \<Rightarrow> Raise e (stop s'))"
  using run_cancelled_general [OF found k flag ok] stop_process_image [of lib w s p]
  by (rule conjI)

theorem run_cancelled_witness:
  "events (run demo_lib demo_world demo_worker) =
     [Progress 1 3, Progress 2 3,
      CacheStats \<lparr>cache_hits = 1, api_calls = 1, total_processed = 2, skipped_already_tagged = 0,
                  skipped_no_gps = 0, metadata_written = 2, metadata_unchanged = 0\<rparr>,
      Finished] \<and>
   stats (run demo_lib demo_world demo_worker) =
     \<lparr>cache_hits = 1, api_calls = 1, total_processed = 2, skipped_already_tagged = 0,
      skipped_no_gps = 0, metadata_written = 2, metadata_unchanged = 0\<rparr> \<and>
   Log LCancelled \<in> set (signals (run demo_lib demo_world demo_worker))"
proof -
  define stk where "stk = state_of (process_files demo_lib demo_world (length demo_files) 0
     (take 2 demo_files)
     (log_header (length demo_files) (record_call (Walk ''/photos'') (log LSearching demo_worker))))"
  have k: "2 < length demo_files" by (simp add: demo_files_def)
  note t = run_cancelled [OF demo_found k demo_flag demo_ok, THEN conjunct1,
      unfolded Let_def, folded stk_def]
  have s: "stats stk =
     \<lparr>cache_hits = 1, api_calls = 1, total_processed = 2, skipped_already_tagged = 0,
      skipped_no_gps = 0, metadata_written = 2, metadata_unchanged = 0\<rparr>"
    unfolding stk_def by (rule demo_stats)
  have e: "events demo_worker = []" by (simp add: events_def demo_worker_def)
  have u: "[0..<2] = [0, Suc 0]" by (simp add: upt_rec)
  note t2 = t [THEN conjunct2, THEN conjunct1]
  note t5 = t [THEN conjunct2, THEN conjunct2, THEN conjunct2, THEN conjunct2, THEN conjunct1]
  note t6 = t [THEN conjunct2, THEN conjunct2, THEN conjunct2, THEN conjunct2, THEN conjunct2]
  have 1: "events (run demo_lib demo_world demo_worker) =
     [Progress 1 3, Progress 2 3, CacheStats (stats stk), Finished]"
    using t6 by (simp add: e u demo_files_def numeral_2_eq_2 numeral_3_eq_3)
  have 2: "stats (run demo_lib demo_world demo_worker) = stats stk"
    by (rule t2)
  have "Log LCancelled \<in> set (take (Suc (length (signals stk)))
          (signals (run demo_lib demo_world demo_worker)))"
    unfolding t5 by simp
  then have 3: "Log LCancelled \<in> set (signals (run demo_lib demo_world demo_worker))"
    by (rule in_set_takeD)
  from 1 2 3 show ?thesis unfolding s by simp
qed

end
